theory Spec2Isabelle
  imports Main "HOL-Library.AList"
begin

section \<open>The camera capture dialog of frappe/public/js/frappe/ui/capture.js\<close>

text \<open>
  The file defines \<^verbatim>\<open>frappe._.get_data_uri\<close> and the class \<^verbatim>\<open>frappe.ui.Capture\<close>.
  A Capture object is modelled as a record of its fields. The objects it shares with
  the browser and with the dialog library (media streams, dialogs) live in stores
  indexed by natural numbers, so that a reference is an index and an object that
  is no longer referenced is still there. Everything the code does to the outside
  (requests to the camera, alerts, callback invocations, dialogs shown and hidden,
  tracks stopped) is appended to a list of effects, in program order.
\<close>

subsection \<open>JavaScript values and objects\<close>

datatype jsval = JUndefined | JNull | JBool bool | JNum int | JStr string

text \<open>What \<^verbatim>\<open>if (v)\<close> tests.\<close>

fun truthy :: "jsval \<Rightarrow> bool" where
  "truthy JUndefined = False"
| "truthy JNull = False"
| "truthy (JBool b) = b"
| "truthy (JNum n) = (n \<noteq> 0)"
| "truthy (JStr s) = (s \<noteq> [])"

text \<open>
  An object literal is the list of its own properties in insertion order.
  Reading a property that is absent gives \<^verbatim>\<open>undefined\<close>.
\<close>

type_synonym js_object = "(string \<times> jsval) list"

definition get_prop :: "js_object \<Rightarrow> string \<Rightarrow> jsval" where
  "get_prop obj k = (case map_of obj k of None \<Rightarrow> JUndefined | Some v \<Rightarrow> v)"

text \<open>
  \<^verbatim>\<open>{ ...a, ...b }\<close>: the properties of \<open>a\<close>, then each property of \<open>b\<close> in order,
  overwriting in place a key that is already there and appending a new one.
\<close>

definition spread :: "js_object \<Rightarrow> js_object \<Rightarrow> js_object" where
  "spread a b = fold (\<lambda>(k, v). AList.update k v) b a"

subsection \<open>Frame capture: \<^verbatim>\<open>frappe._.get_data_uri\<close> (lines 14-29)\<close>

text \<open>
  A video element has the stream it plays, its native size and the frame it shows
  now (an opaque identifier, chosen by the camera).
\<close>

record video_element =
  srcObject :: "nat option"
  playing :: bool
  videoWidth :: nat
  videoHeight :: nat
  current_frame :: nat

text \<open>
  A canvas is its size and the drawing calls it received. \<^verbatim>\<open>drawImage(el, x, y, w, h)\<close>
  paints the whole source image (a frame of native size \<open>src_w\<close> by \<open>src_h\<close>) into the
  destination rectangle at \<open>(dx, dy)\<close> of size \<open>dw\<close> by \<open>dh\<close>.
\<close>

datatype draw_op =
  DrawImage (src_frame: nat) (src_w: nat) (src_h: nat) (dx: int) (dy: int) (dw: nat) (dh: nat)

record canvas =
  c_width :: nat
  c_height :: nat
  c_ops :: "draw_op list"

text \<open>
  The browser's encoder is not part of the repository: a data URI is represented by
  the MIME type that was asked for and the surface that was encoded.
\<close>

datatype data_uri = DataURL (mime: string) (surface: canvas)

definition new_canvas :: canvas where
  "new_canvas = \<lparr>c_width = 300, c_height = 150, c_ops = []\<rparr>"

definition drawImage :: "video_element \<Rightarrow> int \<Rightarrow> int \<Rightarrow> nat \<Rightarrow> nat \<Rightarrow> canvas \<Rightarrow> canvas" where
  "drawImage el x y w h c =
     c\<lparr>c_ops := c_ops c @ [DrawImage (current_frame el) (videoWidth el) (videoHeight el) x y w h]\<rparr>"

definition toDataURL :: "canvas \<Rightarrow> string \<Rightarrow> data_uri" where
  "toDataURL c m = DataURL m c"

definition get_data_uri :: "video_element \<Rightarrow> data_uri" where
  "get_data_uri element =
     (let width = videoWidth element;
          height = videoHeight element;
          canvas0 = new_canvas;
          canvas1 = canvas0\<lparr>c_width := width\<rparr>;
          canvas2 = canvas1\<lparr>c_height := height\<rparr>;
          canvas3 = drawImage element 0 0 width height canvas2;
          data_uri = toDataURL canvas3 ''image/png''
      in data_uri)"

text \<open>A drawing call scales when the destination size differs from the source size.\<close>

definition unscaled :: "draw_op \<Rightarrow> bool" where
  "unscaled op = (dw op = src_w op \<and> dh op = src_h op)"

text \<open>A drawing call fills a surface when it starts at the origin with the surface's size.\<close>

definition fills :: "draw_op \<Rightarrow> canvas \<Rightarrow> bool" where
  "fills op c = (dx op = 0 \<and> dy op = 0 \<and> dw op = c_width c \<and> dh op = c_height c)"

subsection \<open>The Capture object (lines 44-57, 174-179)\<close>

text \<open>
  \<open>stream\<close> and \<open>dialog\<close> are references into the stores of the world below;
  \<open>callback\<close> is the identity of the function given to \<^verbatim>\<open>submit\<close>. A field that
  was never assigned is \<open>None\<close>. The translation function \<^verbatim>\<open>__\<close> is taken as the
  identity on the message.
\<close>

record capture =
  options :: js_object
  facing_mode :: string
  images :: "data_uri list"
  stream :: "nat option"
  dialog :: "nat option"
  callback :: "nat option"

definition OPTIONS :: js_object where
  "OPTIONS = [(''title'', JStr ''Camera''), (''animate'', JBool False), (''error'', JBool False)]"

definition ERR_MESSAGE :: string where
  "ERR_MESSAGE = ''Unable to load camera.''"

definition set_options :: "js_object \<Rightarrow> capture \<Rightarrow> capture" where
  "set_options opts c = c\<lparr>options := spread OPTIONS opts\<rparr>"

text \<open>The argument is \<open>None\<close> when the caller passes nothing: the default parameter is \<^verbatim>\<open>{}\<close>.\<close>

definition constructor :: "js_object option \<Rightarrow> capture" where
  "constructor arg =
     (let opts = (case arg of None \<Rightarrow> [] | Some obj \<Rightarrow> obj);
          this0 = \<lparr>options = OPTIONS, facing_mode = ''environment'', images = [],
                   stream = None, dialog = None, callback = None\<rparr>
      in set_options opts this0)"

subsection \<open>The dialog library\<close>

text \<open>
  \<^verbatim>\<open>frappe.ui.Dialog\<close> is defined elsewhere in frappe, not in capture.js. A dialog object is
  its title and animation flag, whether it is displayed, the label and click action
  of its primary and secondary buttons, its custom action buttons, the click
  listeners of its close button and its body. The body of a capture dialog is the
  instantiated \<^verbatim>\<open>TEMPLATE\<close> (lines 180-189): a preview image, hidden at first, and
  the live video.
\<close>

record capture_element =
  preview_src :: "data_uri option"
  preview_visible :: bool
  stream_visible :: bool
  video :: video_element

definition TEMPLATE :: capture_element where
  "TEMPLATE = \<lparr>preview_src = None, preview_visible = False, stream_visible = True,
     video = \<lparr>srcObject = None, playing = False, videoWidth = 0, videoHeight = 0,
               current_frame = 0\<rparr>\<rparr>"

text \<open>
  The closures that \<^verbatim>\<open>render\<close> binds to buttons. A closure that reads \<^verbatim>\<open>$e\<close> or
  \<^verbatim>\<open>video\<close> carries the number of the \<^verbatim>\<open>render\<close> call that created them; \<^verbatim>\<open>this.dialog\<close>
  is read when the closure runs.
\<close>

datatype handler =
  TakePhoto nat
| SubmitImages
| SwitchCamera
| Retake nat
| TakeMultiple nat
| CloseDialog

datatype hide_hook = StopMediaStreamHook

record custom_action =
  ca_label :: string
  ca_handler :: handler
  ca_class :: string
  ca_visible :: bool

record dialog_obj =
  d_title :: jsval
  d_animate :: jsval
  on_hide :: "hide_hook option"
  displayed :: bool
  primary_label :: string
  primary_action :: "handler option"
  secondary_label :: string
  secondary_action :: "handler option"
  secondary_visible :: bool
  custom_actions :: "custom_action list"
  close_listeners :: "handler list"
  body :: "capture_element option"

text \<open>
  Modelled from the spec: the constructor of \<^verbatim>\<open>frappe.ui.Dialog\<close>
  (\<open>ModalPresenter.present(config) -> DialogHandle\<close>). The dialog is created hidden,
  with no action bound.
\<close>

definition new_dialog :: "jsval \<Rightarrow> jsval \<Rightarrow> hide_hook option \<Rightarrow> dialog_obj" where
  "new_dialog t a h =
     \<lparr>d_title = t, d_animate = a, on_hide = h, displayed = False,
      primary_label = [], primary_action = None,
      secondary_label = [], secondary_action = None, secondary_visible = True,
      custom_actions = [], close_listeners = [], body = None\<rparr>"

text \<open>
  Modelled from the spec: \<^verbatim>\<open>Dialog.set_primary_action(label, fn)\<close>
  (\<open>DialogHandle.setPrimaryAction(label, fn)\<close>; the spec speaks of rebinding the
  primary and secondary actions per state). The button gets the label and the
  action; the action it had is replaced.
\<close>

definition set_primary_action :: "string \<Rightarrow> handler \<Rightarrow> dialog_obj \<Rightarrow> dialog_obj" where
  "set_primary_action l h d = d\<lparr>primary_label := l, primary_action := Some h\<rparr>"

text \<open>
  Modelled from the spec: \<^verbatim>\<open>Dialog.set_secondary_action(fn)\<close>
  (\<open>DialogHandle.setSecondaryAction\<close>). The action the secondary button had is
  replaced; its label is left as it is.
\<close>

definition set_secondary_action :: "handler \<Rightarrow> dialog_obj \<Rightarrow> dialog_obj" where
  "set_secondary_action h d = d\<lparr>secondary_action := Some h\<rparr>"

text \<open>
  Modelled from the spec: \<^verbatim>\<open>Dialog.set_secondary_action_label(label)\<close>. Only the
  label of the secondary button changes.
\<close>

definition set_secondary_action_label :: "string \<Rightarrow> dialog_obj \<Rightarrow> dialog_obj" where
  "set_secondary_action_label l d = d\<lparr>secondary_label := l\<rparr>"

text \<open>
  Modelled from the spec: \<^verbatim>\<open>Dialog.add_custom_action(label, fn, css_class)\<close>
  (\<open>DialogHandle.addCustomAction(label, fn, tag)\<close>). A new visible button is added
  after the ones that are there.
\<close>

definition add_custom_action :: "string \<Rightarrow> handler \<Rightarrow> string \<Rightarrow> dialog_obj \<Rightarrow> dialog_obj" where
  "add_custom_action l h cls d =
     d\<lparr>custom_actions := custom_actions d @
        [\<lparr>ca_label = l, ca_handler = h, ca_class = cls, ca_visible = True\<rparr>]\<rparr>"

text \<open>
  What the code does to the buttons through jQuery:
  \<^verbatim>\<open>custom_actions.find("." + cls).show()\<close> and \<^verbatim>\<open>.hide()\<close>,
  \<^verbatim>\<open>get_primary_btn().off('click')\<close>, \<^verbatim>\<open>get_secondary_btn().show()\<close> and
  \<^verbatim>\<open>get_close_btn().on('click', fn)\<close>.
\<close>

definition set_custom_visible :: "string \<Rightarrow> bool \<Rightarrow> dialog_obj \<Rightarrow> dialog_obj" where
  "set_custom_visible cls v d =
     d\<lparr>custom_actions :=
        map (\<lambda>a. if ca_class a = cls then a\<lparr>ca_visible := v\<rparr> else a) (custom_actions d)\<rparr>"

definition primary_off_click :: "dialog_obj \<Rightarrow> dialog_obj" where
  "primary_off_click d = d\<lparr>primary_action := None\<rparr>"

definition secondary_show :: "dialog_obj \<Rightarrow> dialog_obj" where
  "secondary_show d = d\<lparr>secondary_visible := True\<rparr>"

definition close_on_click :: "handler \<Rightarrow> dialog_obj \<Rightarrow> dialog_obj" where
  "close_on_click h d = d\<lparr>close_listeners := close_listeners d @ [h]\<rparr>"

subsection \<open>The world: the Capture object, the stores and the effects\<close>

text \<open>
  A media stream is the list of its tracks, \<open>True\<close> for a live track and \<open>False\<close>
  for one that was stopped. \<open>pending\<close> holds the \<^verbatim>\<open>facingMode\<close> of every
  \<^verbatim>\<open>getUserMedia\<close> request of \<^verbatim>\<open>show\<close> that the browser has not answered yet.
\<close>

datatype effect =
  GetUserMedia string
| TrackStop nat nat
| ShowAlert string
| DialogShow nat
| DialogHide nat
| CallbackCall nat "data_uri list"
| UnhandledRejection string

record world =
  cap :: capture
  streams :: "bool list list"
  dialogs :: "dialog_obj list"
  pending :: "string list"
  effects :: "effect list"

definition emit :: "effect list \<Rightarrow> world \<Rightarrow> world" where
  "emit es w = w\<lparr>effects := effects w @ es\<rparr>"

definition upd_dialog :: "nat \<Rightarrow> (dialog_obj \<Rightarrow> dialog_obj) \<Rightarrow> world \<Rightarrow> world" where
  "upd_dialog j f w =
     (if j < length (dialogs w) then w\<lparr>dialogs := (dialogs w)[j := f (dialogs w ! j)]\<rparr> else w)"

text \<open>An update of \<^verbatim>\<open>this.dialog\<close>, the dialog the Capture object refers to now.\<close>

definition upd_this_dialog :: "(dialog_obj \<Rightarrow> dialog_obj) \<Rightarrow> world \<Rightarrow> world" where
  "upd_this_dialog f w = (case dialog (cap w) of None \<Rightarrow> w | Some j \<Rightarrow> upd_dialog j f w)"

text \<open>An update of \<^verbatim>\<open>$e\<close> of the \<open>i\<close>-th \<^verbatim>\<open>render\<close>, which is the body of the \<open>i\<close>-th dialog.\<close>

definition upd_element :: "nat \<Rightarrow> (capture_element \<Rightarrow> capture_element) \<Rightarrow> world \<Rightarrow> world" where
  "upd_element i f w = upd_dialog i (\<lambda>d. d\<lparr>body := map_option f (body d)\<rparr>) w"

definition element_of :: "nat \<Rightarrow> world \<Rightarrow> capture_element option" where
  "element_of i w = (if i < length (dialogs w) then body (dialogs w ! i) else None)"

subsection \<open>\<^verbatim>\<open>stop_media_stream\<close>, \<^verbatim>\<open>hide\<close>, \<^verbatim>\<open>submit\<close> (lines 157-172)\<close>

text \<open>
  \<^verbatim>\<open>stop_media_stream\<close> calls \<^verbatim>\<open>stop()\<close> on every track of \<^verbatim>\<open>this.stream\<close>, if there
  is one. A reference always points into its store; the test on the index only
  keeps the function total.
\<close>

definition stop_media_stream :: "world \<Rightarrow> world" where
  "stop_media_stream w =
     (case stream (cap w) of
        None \<Rightarrow> w
      | Some k \<Rightarrow>
          if k < length (streams w)
          then emit (map (TrackStop k) [0..<length (streams w ! k)])
                 (w\<lparr>streams := (streams w)[k := map (\<lambda>t. False) (streams w ! k)]\<rparr>)
          else w)"

text \<open>
  Modelled from the spec: \<^verbatim>\<open>Dialog.hide()\<close> (\<open>DialogHandle.hide()\<close>, which dismisses
  the presented UI). A displayed dialog is taken off the screen and its
  \<^verbatim>\<open>on_hide\<close> hook runs; the only hook this program installs is
  \<^verbatim>\<open>() => this.stop_media_stream()\<close> (line 72). A dialog that is not displayed is left
  alone.
\<close>

definition dialog_hide :: "nat \<Rightarrow> world \<Rightarrow> world" where
  "dialog_hide j w =
     (if j < length (dialogs w) \<and> displayed (dialogs w ! j)
      then (let w1 = emit [DialogHide j] (upd_dialog j (\<lambda>d. d\<lparr>displayed := False\<rparr>) w)
            in case on_hide (dialogs w ! j) of
                 None \<Rightarrow> w1
               | Some StopMediaStreamHook \<Rightarrow> stop_media_stream w1)
      else w)"

text \<open>Modelled from the spec: \<^verbatim>\<open>Dialog.show()\<close>, which puts the dialog on the screen.\<close>

definition dialog_show :: "nat \<Rightarrow> world \<Rightarrow> world" where
  "dialog_show j w = emit [DialogShow j] (upd_dialog j (\<lambda>d. d\<lparr>displayed := True\<rparr>) w)"

definition hide :: "world \<Rightarrow> world" where
  "hide w =
     (let w1 = (case dialog (cap w) of None \<Rightarrow> w | Some j \<Rightarrow> dialog_hide j w)
      in stop_media_stream w1)"

text \<open>\<open>fn\<close> is \<open>None\<close> when the caller passes nothing (or a falsy value).\<close>

definition submit :: "nat option \<Rightarrow> world \<Rightarrow> world" where
  "submit fn w = w\<lparr>cap := (cap w)\<lparr>callback := fn\<rparr>\<rparr>"

subsection \<open>\<^verbatim>\<open>show\<close> and \<^verbatim>\<open>render\<close> up to the request (lines 59-66, 143-144)\<close>

text \<open>
  \<^verbatim>\<open>render\<close> builds the constraints from the current \<^verbatim>\<open>facing_mode\<close> and calls
  \<^verbatim>\<open>getUserMedia\<close>; the rest of \<^verbatim>\<open>render\<close> and of \<^verbatim>\<open>show\<close> runs when the browser
  answers (\<open>settle\<close> below). \<^verbatim>\<open>show\<close> has no \<^verbatim>\<open>return\<close>: its caller gets \<^verbatim>\<open>undefined\<close>
  at once and the promise chain is dropped.
\<close>

definition render_request :: "world \<Rightarrow> world" where
  "render_request w =
     emit [GetUserMedia (facing_mode (cap w))]
       (w\<lparr>pending := pending w @ [facing_mode (cap w)]\<rparr>)"

definition show_capture :: "world \<Rightarrow> world" where
  "show_capture w = render_request w"

subsection \<open>The closures bound to the buttons (lines 75-128)\<close>

definition set_take_photo_action :: "nat \<Rightarrow> world \<Rightarrow> world" where
  "set_take_photo_action i w =
     (let w1 = upd_this_dialog (set_primary_action ''Take Photo'' (TakePhoto i)) w;
          w2 = upd_this_dialog (set_secondary_action_label ''Switch Camera'') w1;
          w3 = upd_this_dialog (set_secondary_action SwitchCamera) w2
      in w3)"

text \<open>
  Lines 81-96, the primary action in the preview. The closure's \<^verbatim>\<open>video\<close> and \<^verbatim>\<open>$e\<close>
  exist whenever the closure does; the first branch only keeps the function total.
\<close>

definition take_photo_action :: "nat \<Rightarrow> world \<Rightarrow> world" where
  "take_photo_action i w =
     (case element_of i w of
        None \<Rightarrow> w
      | Some e \<Rightarrow>
          (let data_url = get_data_uri (video e);
               w1 = upd_element i (\<lambda>x. x\<lparr>preview_src := Some data_url\<rparr>) w;
               w2 = w1\<lparr>cap := (cap w1)\<lparr>images := images (cap w1) @ [data_url]\<rparr>\<rparr>;
               w3 = upd_element i (\<lambda>x. x\<lparr>stream_visible := False\<rparr>) w2;
               w4 = upd_element i (\<lambda>x. x\<lparr>preview_visible := True\<rparr>) w3;
               w5 = upd_this_dialog (set_secondary_action_label ''Retake'') w4;
               w6 = upd_this_dialog secondary_show w5;
               w7 = upd_this_dialog (set_custom_visible ''btn-multiple'' True) w6;
               w8 = upd_this_dialog (set_primary_action ''Submit'' SubmitImages) w7
           in w8))"

text \<open>Lines 94-95, the primary action after a capture.\<close>

definition submit_action :: "world \<Rightarrow> world" where
  "submit_action w =
     (let w1 = hide w
      in case callback (cap w1) of
           None \<Rightarrow> w1
         | Some fn \<Rightarrow> emit [CallbackCall fn (images (cap w1))] w1)"

text \<open>Lines 101-106.\<close>

definition switch_camera_action :: "world \<Rightarrow> world" where
  "switch_camera_action w =
     (let w1 = w\<lparr>cap := (cap w)\<lparr>facing_mode :=
                  (if facing_mode (cap w) = ''environment'' then ''user'' else ''environment'')\<rparr>\<rparr>;
          w2 = emit [ShowAlert ''Switching Camera''] w1;
          w3 = hide w2;
          w4 = show_capture w3
      in w4)"

text \<open>Lines 113-118. \<^verbatim>\<open>pop()\<close> on an empty array removes nothing.\<close>

definition retake_action :: "nat \<Rightarrow> world \<Rightarrow> world" where
  "retake_action i w =
     (let w1 = w\<lparr>cap := (cap w)\<lparr>images := butlast (images (cap w))\<rparr>\<rparr>;
          w2 = upd_element i (\<lambda>x. x\<lparr>preview_visible := False\<rparr>) w1;
          w3 = upd_element i (\<lambda>x. x\<lparr>stream_visible := True\<rparr>) w2;
          w4 = upd_this_dialog primary_off_click w3;
          w5 = set_take_photo_action i w4
      in w5)"

text \<open>Lines 122-127.\<close>

definition take_multiple_action :: "nat \<Rightarrow> world \<Rightarrow> world" where
  "take_multiple_action i w =
     (let w1 = upd_element i (\<lambda>x. x\<lparr>preview_visible := False\<rparr>) w;
          w2 = upd_element i (\<lambda>x. x\<lparr>stream_visible := True\<rparr>) w1;
          w3 = upd_this_dialog primary_off_click w2;
          w4 = upd_this_dialog (set_custom_visible ''btn-multiple'' False) w3;
          w5 = set_take_photo_action i w4
      in w5)"

fun run_handler :: "handler \<Rightarrow> world \<Rightarrow> world" where
  "run_handler (TakePhoto i) w = take_photo_action i w"
| "run_handler SubmitImages w = submit_action w"
| "run_handler SwitchCamera w = switch_camera_action w"
| "run_handler (Retake i) w = retake_action i w"
| "run_handler (TakeMultiple i) w = take_multiple_action i w"
| "run_handler CloseDialog w = hide w"

subsection \<open>\<^verbatim>\<open>render\<close> and \<^verbatim>\<open>show\<close> once the browser has answered (lines 66-140, 145-154)\<close>

text \<open>
  The callback of \<^verbatim>\<open>getUserMedia(...).then\<close>, for a stream of \<open>n\<close> live tracks. The
  new stream and the new dialog are added to the stores; the closures get the
  number of the new dialog, whose body their \<^verbatim>\<open>$e\<close> becomes (line 139).
\<close>

definition render_then :: "nat \<Rightarrow> world \<Rightarrow> world" where
  "render_then n w =
     (let sid = length (streams w);
          w1 = w\<lparr>streams := streams w @ [replicate n True]\<rparr>;
          w2 = w1\<lparr>cap := (cap w1)\<lparr>stream := Some sid\<rparr>\<rparr>;
          did = length (dialogs w2);
          w3 = w2\<lparr>dialogs := dialogs w2 @
                 [new_dialog (get_prop (options (cap w2)) ''title'')
                    (get_prop (options (cap w2)) ''animate'') (Some StopMediaStreamHook)]\<rparr>;
          w4 = w3\<lparr>cap := (cap w3)\<lparr>dialog := Some did\<rparr>\<rparr>;
          w5 = upd_this_dialog (close_on_click CloseDialog) w4;
          w6 = set_take_photo_action did w5;
          w7 = upd_this_dialog (set_secondary_action (Retake did)) w6;
          w8 = upd_this_dialog
                 (add_custom_action ''Take Multiple'' (TakeMultiple did) ''btn-multiple'') w7;
          w9 = upd_this_dialog (set_custom_visible ''btn-multiple'' False) w8;
          e = TEMPLATE\<lparr>video := (video TEMPLATE)\<lparr>srcObject := stream (cap w9), playing := True\<rparr>\<rparr>;
          w10 = upd_this_dialog (\<lambda>d. d\<lparr>body := Some e\<rparr>) w9
      in w10)"

datatype media_result = Granted nat | Denied string

datatype promise_state = Fulfilled | Rejected string

text \<open>Lines 145-147: \<^verbatim>\<open>this.dialog.show()\<close>; reading a method of \<^verbatim>\<open>undefined\<close> throws.\<close>

definition show_then :: "world \<Rightarrow> promise_state \<times> world" where
  "show_then w =
     (case dialog (cap w) of
        None \<Rightarrow> (Rejected ''TypeError'', w)
      | Some j \<Rightarrow> (Fulfilled, dialog_show j w))"

text \<open>Lines 148-154: the alert if \<^verbatim>\<open>options.error\<close> is truthy, then \<^verbatim>\<open>throw err\<close>.\<close>

definition show_catch :: "string \<Rightarrow> world \<Rightarrow> promise_state \<times> world" where
  "show_catch err w =
     (let w1 = (if truthy (get_prop (options (cap w)) ''error'')
                then emit [ShowAlert ERR_MESSAGE] w else w)
      in (Rejected err, w1))"

text \<open>
  The promise that \<^verbatim>\<open>.catch\<close> returns is held by nobody (\<^verbatim>\<open>show\<close> does not return
  it): when it is rejected, the browser reports an unhandled rejection.
\<close>

definition drop_promise :: "promise_state \<Rightarrow> world \<Rightarrow> world" where
  "drop_promise p w =
     (case p of Fulfilled \<Rightarrow> w | Rejected err \<Rightarrow> emit [UnhandledRejection err] w)"

text \<open>The promise chain of one \<^verbatim>\<open>show\<close>, run on the browser's answer.\<close>

definition show_chain :: "media_result \<Rightarrow> world \<Rightarrow> promise_state \<times> world" where
  "show_chain r w =
     (let (p1, w1) = (case r of
                        Granted n \<Rightarrow> (Fulfilled, render_then n w)
                      | Denied err \<Rightarrow> (Rejected err, w));
          (p2, w2) = (case p1 of
                        Fulfilled \<Rightarrow> show_then w1
                      | Rejected err \<Rightarrow> (Rejected err, w1));
          (p3, w3) = (case p2 of
                        Fulfilled \<Rightarrow> (Fulfilled, w2)
                      | Rejected err \<Rightarrow> show_catch err w2)
      in (p3, w3))"

text \<open>The browser answers the \<open>k\<close>-th request that is still pending.\<close>

definition settle :: "nat \<Rightarrow> media_result \<Rightarrow> world \<Rightarrow> world" where
  "settle k r w =
     (if k < length (pending w)
      then (let w0 = w\<lparr>pending := take k (pending w) @ drop (Suc k) (pending w)\<rparr>;
                (p, w1) = show_chain r w0
            in drop_promise p w1)
      else w)"

subsection \<open>What happens to a session\<close>

text \<open>
  The application calls the methods of the Capture object, the browser answers
  requests and delivers video frames, and the user clicks the buttons of a dialog
  that is displayed. A click runs the listeners the button has at that moment.
\<close>

datatype button = PrimaryBtn | SecondaryBtn | CustomBtn string | CloseBtn

definition listeners :: "dialog_obj \<Rightarrow> button \<Rightarrow> handler list" where
  "listeners d b =
     (case b of
        PrimaryBtn \<Rightarrow> (case primary_action d of None \<Rightarrow> [] | Some h \<Rightarrow> [h])
      | SecondaryBtn \<Rightarrow>
          (if secondary_visible d
           then (case secondary_action d of None \<Rightarrow> [] | Some h \<Rightarrow> [h]) else [])
      | CustomBtn cls \<Rightarrow>
          map ca_handler (filter (\<lambda>a. ca_class a = cls \<and> ca_visible a) (custom_actions d))
      | CloseBtn \<Rightarrow> close_listeners d)"

definition click :: "nat \<Rightarrow> button \<Rightarrow> world \<Rightarrow> world" where
  "click i b w =
     (if i < length (dialogs w) \<and> displayed (dialogs w ! i)
      then fold run_handler (listeners (dialogs w ! i) b) w
      else w)"

definition video_frame :: "nat \<Rightarrow> nat \<Rightarrow> nat \<Rightarrow> nat \<Rightarrow> world \<Rightarrow> world" where
  "video_frame i vw vh f w =
     upd_element i
       (\<lambda>x. x\<lparr>video := (video x)\<lparr>videoWidth := vw, videoHeight := vh, current_frame := f\<rparr>\<rparr>) w"

datatype event =
  CallShow
| CallHide
| CallSubmit "nat option"
| Settle nat media_result
| VideoFrame nat nat nat nat
| Click nat button

fun step :: "event \<Rightarrow> world \<Rightarrow> world" where
  "step CallShow w = show_capture w"
| "step CallHide w = hide w"
| "step (CallSubmit fn) w = submit fn w"
| "step (Settle k r) w = settle k r w"
| "step (VideoFrame i vw vh f) w = video_frame i vw vh f w"
| "step (Click i b) w = click i b w"

definition run :: "event list \<Rightarrow> world \<Rightarrow> world" where
  "run evs w = fold step evs w"

text \<open>The world right after \<^verbatim>\<open>new frappe.ui.Capture(arg)\<close>.\<close>

definition fresh :: "js_object option \<Rightarrow> world" where
  "fresh arg = \<lparr>cap = constructor arg, streams = [], dialogs = [], pending = [], effects = []\<rparr>"

subsection \<open>What is observed of a world\<close>

text \<open>A stream is live while one of its tracks is.\<close>

definition live :: "bool list \<Rightarrow> bool" where
  "live s = (True \<in> set s)"

text \<open>The stream the Capture object holds is live; the dialog it holds is on the screen.\<close>

definition held_live :: "world \<Rightarrow> bool" where
  "held_live w =
     (case stream (cap w) of
        None \<Rightarrow> False
      | Some k \<Rightarrow> k < length (streams w) \<and> live (streams w ! k))"

definition dialog_displayed :: "world \<Rightarrow> bool" where
  "dialog_displayed w =
     (case dialog (cap w) of
        None \<Rightarrow> False
      | Some j \<Rightarrow> j < length (dialogs w) \<and> displayed (dialogs w ! j))"

text \<open>The effects a step added to the ones that were there.\<close>

definition new_effects :: "world \<Rightarrow> world \<Rightarrow> effect list" where
  "new_effects w w' = drop (length (effects w)) (effects w')"

fun is_call :: "effect \<Rightarrow> bool" where
  "is_call (CallbackCall fn imgs) = True"
| "is_call e = False"

text \<open>The effects of dismissing a dialog and of releasing a stream.\<close>

fun is_release :: "effect \<Rightarrow> bool" where
  "is_release (DialogHide j) = True"
| "is_release (TrackStop k t) = True"
| "is_release e = False"

text \<open>
  Two orders for the effects of the Submit action: the callback is called and then
  the session is dismissed and released, or the session is dismissed and released
  and then the callback is called.
\<close>

fun call_then_release :: "effect list \<Rightarrow> bool" where
  "call_then_release [] = False"
| "call_then_release (e # es) = (is_call e \<and> es \<noteq> [] \<and> list_all is_release es)"

definition release_then_call :: "effect list \<Rightarrow> bool" where
  "release_then_call es =
     (es \<noteq> [] \<and> is_call (last es) \<and> butlast es \<noteq> [] \<and> list_all is_release (butlast es))"




text \<open>
  In a world the program can reach, every dialog of the store has its body, and a
  closure bound to a button belongs to a \<^verbatim>\<open>render\<close> call that has happened.
\<close>

definition handler_ok :: "nat \<Rightarrow> handler \<Rightarrow> bool" where
  "handler_ok n h =
     (case h of TakePhoto i \<Rightarrow> i < n | Retake i \<Rightarrow> i < n | TakeMultiple i \<Rightarrow> i < n | _ \<Rightarrow> True)"

definition bound_handlers :: "dialog_obj \<Rightarrow> handler list" where
  "bound_handlers d =
     (case primary_action d of None \<Rightarrow> [] | Some h \<Rightarrow> [h])
     @ (case secondary_action d of None \<Rightarrow> [] | Some h \<Rightarrow> [h])
     @ map ca_handler (custom_actions d) @ close_listeners d"

definition dialog_ok :: "nat \<Rightarrow> dialog_obj \<Rightarrow> bool" where
  "dialog_ok n d = (body d \<noteq> None \<and> list_all (handler_ok n) (bound_handlers d))"

definition well_formed :: "world \<Rightarrow> bool" where
  "well_formed w = list_all (dialog_ok (length (dialogs w))) (dialogs w)"

text \<open>
  What matters to the streams of a world: how many requests are pending, which
  streams are live, which dialogs are displayed, and which stream and dialog the
  Capture object holds.
\<close>

record shape =
  sh_pending :: nat
  sh_streams :: "bool list"
  sh_held :: "nat option"
  sh_dialogs :: "bool list"
  sh_this :: "nat option"

definition shape_of :: "world \<Rightarrow> shape" where
  "shape_of w =
     \<lparr>sh_pending = length (pending w), sh_streams = map live (streams w),
      sh_held = stream (cap w), sh_dialogs = map displayed (dialogs w),
      sh_this = dialog (cap w)\<rparr>"

text \<open>
  At most one request is pending, and while it is no stream is live and no dialog
  is displayed; a stream that is live is the one the Capture object holds, and a
  dialog that is displayed is the one it holds.
\<close>

definition shape_ok :: "shape \<Rightarrow> bool" where
  "shape_ok a =
     ((sh_pending a = 0
        \<or> (sh_pending a = 1 \<and> list_all Not (sh_streams a) \<and> list_all Not (sh_dialogs a)))
      \<and> list_all (\<lambda>k. sh_held a = Some k \<or> \<not> sh_streams a ! k) [0..<length (sh_streams a)]
      \<and> list_all (\<lambda>j. sh_this a = Some j \<or> \<not> sh_dialogs a ! j) [0..<length (sh_dialogs a)])"

text \<open>Every close button has at most one listener and every dialog at most one custom action.\<close>

definition single_listeners :: "world \<Rightarrow> bool" where
  "single_listeners w =
     list_all (\<lambda>d. length (close_listeners d) \<le> 1 \<and> length (custom_actions d) \<le> 1) (dialogs w)"

definition one_stream_inv :: "world \<Rightarrow> bool" where
  "one_stream_inv w = (shape_ok (shape_of w) \<and> single_listeners w)"

definition live_streams :: "world \<Rightarrow> nat" where
  "live_streams w = length (filter live (streams w))"

text \<open>A session with nothing pending, nothing live and nothing displayed.\<close>

definition idle :: "world \<Rightarrow> bool" where
  "idle w =
     (pending w = [] \<and> list_all (\<lambda>s. \<not> live s) (streams w)
      \<and> list_all (\<lambda>d. \<not> displayed d) (dialogs w))"

text \<open>
  Sequences of events in which the application calls \<^verbatim>\<open>show\<close> only on an idle
  session; the user and the browser may do anything.
\<close>

fun admissible :: "event list \<Rightarrow> world \<Rightarrow> bool" where
  "admissible [] w = True"
| "admissible (ev # evs) w =
     ((if ev = CallShow then idle w else True) \<and> admissible evs (step ev w))"

text \<open>What \<^verbatim>\<open>hide\<close> does to the shape.\<close>

definition release :: "shape \<Rightarrow> shape" where
  "release a =
     a\<lparr>sh_streams := (case sh_held a of None \<Rightarrow> sh_streams a
                        | Some k \<Rightarrow> (sh_streams a)[k := False]),
       sh_dialogs := (case sh_this a of None \<Rightarrow> sh_dialogs a
                        | Some j \<Rightarrow> (sh_dialogs a)[j := False])\<rparr>"

subsection \<open>Some sessions\<close>

text \<open>
  A session made with no argument, with the callback 7 registered, shown, granted
  a stream of one track, whose video shows frame 1 at 640 by 480: the preview of a
  dialog that was just rendered.
\<close>

definition previewing_fresh :: world where
  "previewing_fresh =
     run [CallSubmit (Some 7), CallShow, Settle 0 (Granted 1), VideoFrame 0 640 480 1] (fresh None)"

text \<open>The user clicks the primary button, "Take Photo".\<close>

definition captured_once :: world where
  "captured_once = step (Click 0 PrimaryBtn) previewing_fresh"

text \<open>The user clicks the secondary button, "Retake"; the video moves on to frame 2.\<close>

definition retaken :: world where
  "retaken = run [Click 0 SecondaryBtn, VideoFrame 0 640 480 2] captured_once"

text \<open>The user clicks "Take Photo" again.\<close>

definition captured_again :: world where
  "captured_again = step (Click 0 PrimaryBtn) retaken"

text \<open>The pictures of frames 1 and 2.\<close>

definition picture :: "nat \<Rightarrow> data_uri" where
  "picture f = DataURL ''image/png''
     \<lparr>c_width = 640, c_height = 480, c_ops = [DrawImage f 640 480 0 0 640 480]\<rparr>"

text \<open>A capture in a session for which \<^verbatim>\<open>submit\<close> was never called.\<close>

definition captured_unregistered :: world where
  "captured_unregistered =
     run [CallShow, Settle 0 (Granted 1), VideoFrame 0 640 480 1, Click 0 PrimaryBtn] (fresh None)"

text \<open>
  After the first capture the user clicks "Take Multiple"; the video moves on to
  frame 2 and the user clicks "Take Photo".
\<close>

definition previewing_more :: world where
  "previewing_more = run [Click 0 (CustomBtn ''btn-multiple''), VideoFrame 0 640 480 2] captured_once"

definition captured_two :: world where
  "captured_two = step (Click 0 PrimaryBtn) previewing_more"

text \<open>A session made with \<^verbatim>\<open>{error: true}\<close> whose first request is pending.\<close>

definition requesting_with_alerts :: world where
  "requesting_with_alerts = step CallShow (fresh (Some [(''error'', JBool True)]))"

definition requesting_default :: world where
  "requesting_default = step CallShow (fresh None)"


section \<open>What each operation leaves alone\<close>

lemma emit_simps [simp]:
  "cap (emit es w) = cap w" "streams (emit es w) = streams w" "dialogs (emit es w) = dialogs w"
  "pending (emit es w) = pending w" "effects (emit es w) = effects w @ es"
  by (simp_all add: emit_def)

lemma upd_dialog_simps [simp]:
  "cap (upd_dialog j f w) = cap w" "streams (upd_dialog j f w) = streams w"
  "pending (upd_dialog j f w) = pending w" "effects (upd_dialog j f w) = effects w"
  "length (dialogs (upd_dialog j f w)) = length (dialogs w)"
  by (simp_all add: upd_dialog_def)

lemma upd_this_dialog_simps [simp]:
  "cap (upd_this_dialog f w) = cap w" "streams (upd_this_dialog f w) = streams w"
  "pending (upd_this_dialog f w) = pending w" "effects (upd_this_dialog f w) = effects w"
  "length (dialogs (upd_this_dialog f w)) = length (dialogs w)"
  by (simp_all add: upd_this_dialog_def split: option.splits)

lemma upd_element_simps [simp]:
  "cap (upd_element i f w) = cap w" "streams (upd_element i f w) = streams w"
  "pending (upd_element i f w) = pending w" "effects (upd_element i f w) = effects w"
  "length (dialogs (upd_element i f w)) = length (dialogs w)"
  by (simp_all add: upd_element_def)

lemma stop_media_stream_simps [simp]:
  "cap (stop_media_stream w) = cap w" "dialogs (stop_media_stream w) = dialogs w"
  "pending (stop_media_stream w) = pending w"
  "length (streams (stop_media_stream w)) = length (streams w)"
  by (simp_all add: stop_media_stream_def split: option.splits)

lemma dialog_hide_simps [simp]:
  "cap (dialog_hide j w) = cap w" "pending (dialog_hide j w) = pending w"
  "length (dialogs (dialog_hide j w)) = length (dialogs w)"
  "length (streams (dialog_hide j w)) = length (streams w)"
  by (simp_all add: dialog_hide_def Let_def split: option.splits hide_hook.splits)

lemma hide_simps [simp]:
  "cap (hide w) = cap w" "pending (hide w) = pending w"
  "length (dialogs (hide w)) = length (dialogs w)"
  "length (streams (hide w)) = length (streams w)"
  by (simp_all add: hide_def Let_def split: option.splits)

lemma show_capture_simps [simp]:
  "cap (show_capture w) = cap w" "streams (show_capture w) = streams w"
  "dialogs (show_capture w) = dialogs w"
  "pending (show_capture w) = pending w @ [facing_mode (cap w)]"
  "effects (show_capture w) = effects w @ [GetUserMedia (facing_mode (cap w))]"
  by (simp_all add: show_capture_def render_request_def)

text \<open>
  A request that fails: the entry leaves \<open>pending\<close>, the alert is shown if
  \<^verbatim>\<open>options.error\<close> is truthy, and the error thrown again ends as an unhandled
  rejection.
\<close>

lemma settle_denied:
  "settle k (Denied err) w =
     (if k < length (pending w)
      then emit ((if truthy (get_prop (options (cap w)) ''error'') then [ShowAlert ERR_MESSAGE] else [])
                 @ [UnhandledRejection err])
             (w\<lparr>pending := take k (pending w) @ drop (Suc k) (pending w)\<rparr>)
      else w)"
  by (simp add: settle_def show_chain_def show_catch_def drop_promise_def emit_def Let_def)

section \<open>Object spread\<close>

lemma map_of_fold_update_absent:
  "k \<notin> fst ` set b \<Longrightarrow> map_of (fold (\<lambda>(k, v). AList.update k v) b a) k = map_of a k"
proof (induction b arbitrary: a)
  case Nil
  show ?case by simp
next
  case (Cons p b)
  obtain k' v where p: "p = (k', v)" by (cases p)
  from Cons.prems p have ne: "k \<noteq> k'" and rest: "k \<notin> fst ` set b" by auto
  have "map_of (fold (\<lambda>(k, v). AList.update k v) b (AList.update k' v a)) k
        = map_of (AList.update k' v a) k"
    using rest by (rule Cons.IH)
  also have "\<dots> = map_of a k"
    using ne by (simp add: update_conv')
  finally show ?case by (simp add: p)
qed

lemma get_prop_spread_absent:
  "k \<notin> fst ` set b \<Longrightarrow> get_prop (spread a b) k = get_prop a k"
  by (simp add: get_prop_def spread_def map_of_fold_update_absent)

section \<open>The sessions, evaluated\<close>


lemma captured_once_value [code]:
  "captured_once =
     \<lparr>cap =
         \<lparr>options =
            [(''title'', JStr ''Camera''), (''animate'', JBool False),
             (''error'', JBool False)],
            facing_mode = ''environment'',
            images =
              [DataURL ''image/png''
                \<lparr>c_width = 640, c_height = 480,
                   c_ops = [DrawImage 1 640 480 0 0 640 480]\<rparr>],
            stream = Some 0, dialog = Some 0, callback = Some 7\<rparr>,
         streams = [[True]],
         dialogs =
           [\<lparr>d_title = JStr ''Camera'', d_animate = JBool False,
               on_hide = Some StopMediaStreamHook, displayed = True,
               primary_label = ''Submit'', primary_action = Some SubmitImages,
               secondary_label = ''Retake'', secondary_action = Some (Retake 0),
               secondary_visible = True,
               custom_actions =
                 [\<lparr>ca_label = ''Take Multiple'', ca_handler = TakeMultiple 0,
                     ca_class = ''btn-multiple'', ca_visible = True\<rparr>],
               close_listeners = [CloseDialog],
               body =
                 Some
                  \<lparr>preview_src =
                     Some
                      (DataURL ''image/png''
                        \<lparr>c_width = 640, c_height = 480,
                           c_ops = [DrawImage 1 640 480 0 0 640 480]\<rparr>),
                     preview_visible = True, stream_visible = False,
                     video =
                       \<lparr>srcObject = Some 0, playing = True, videoWidth = 640,
                          videoHeight = 480, current_frame = 1\<rparr>\<rparr>\<rparr>],
         pending = [], effects = [GetUserMedia ''environment'', DialogShow 0]\<rparr>"
  by code_simp

lemma retaken_value [code]:
  "retaken =
     \<lparr>cap =
         \<lparr>options =
            [(''title'', JStr ''Camera''), (''animate'', JBool False),
             (''error'', JBool False)],
            facing_mode = ''environment'', images = [], stream = Some 0,
            dialog = Some 0, callback = Some 7\<rparr>,
         streams = [[True]],
         dialogs =
           [\<lparr>d_title = JStr ''Camera'', d_animate = JBool False,
               on_hide = Some StopMediaStreamHook, displayed = True,
               primary_label = ''Take Photo'',
               primary_action = Some (TakePhoto 0),
               secondary_label = ''Switch Camera'',
               secondary_action = Some SwitchCamera, secondary_visible = True,
               custom_actions =
                 [\<lparr>ca_label = ''Take Multiple'', ca_handler = TakeMultiple 0,
                     ca_class = ''btn-multiple'', ca_visible = True\<rparr>],
               close_listeners = [CloseDialog],
               body =
                 Some
                  \<lparr>preview_src =
                     Some
                      (DataURL ''image/png''
                        \<lparr>c_width = 640, c_height = 480,
                           c_ops = [DrawImage 1 640 480 0 0 640 480]\<rparr>),
                     preview_visible = False, stream_visible = True,
                     video =
                       \<lparr>srcObject = Some 0, playing = True, videoWidth = 640,
                          videoHeight = 480, current_frame = 2\<rparr>\<rparr>\<rparr>],
         pending = [], effects = [GetUserMedia ''environment'', DialogShow 0]\<rparr>"
  by code_simp

lemma captured_again_value [code]:
  "captured_again =
     \<lparr>cap =
         \<lparr>options =
            [(''title'', JStr ''Camera''), (''animate'', JBool False),
             (''error'', JBool False)],
            facing_mode = ''environment'',
            images =
              [DataURL ''image/png''
                \<lparr>c_width = 640, c_height = 480,
                   c_ops = [DrawImage 2 640 480 0 0 640 480]\<rparr>],
            stream = Some 0, dialog = Some 0, callback = Some 7\<rparr>,
         streams = [[True]],
         dialogs =
           [\<lparr>d_title = JStr ''Camera'', d_animate = JBool False,
               on_hide = Some StopMediaStreamHook, displayed = True,
               primary_label = ''Submit'', primary_action = Some SubmitImages,
               secondary_label = ''Retake'',
               secondary_action = Some SwitchCamera, secondary_visible = True,
               custom_actions =
                 [\<lparr>ca_label = ''Take Multiple'', ca_handler = TakeMultiple 0,
                     ca_class = ''btn-multiple'', ca_visible = True\<rparr>],
               close_listeners = [CloseDialog],
               body =
                 Some
                  \<lparr>preview_src =
                     Some
                      (DataURL ''image/png''
                        \<lparr>c_width = 640, c_height = 480,
                           c_ops = [DrawImage 2 640 480 0 0 640 480]\<rparr>),
                     preview_visible = True, stream_visible = False,
                     video =
                       \<lparr>srcObject = Some 0, playing = True, videoWidth = 640,
                          videoHeight = 480, current_frame = 2\<rparr>\<rparr>\<rparr>],
         pending = [], effects = [GetUserMedia ''environment'', DialogShow 0]\<rparr>"
  by code_simp

lemma captured_unregistered_value [code]:
  "captured_unregistered =
     \<lparr>cap =
         \<lparr>options =
            [(''title'', JStr ''Camera''), (''animate'', JBool False),
             (''error'', JBool False)],
            facing_mode = ''environment'',
            images =
              [DataURL ''image/png''
                \<lparr>c_width = 640, c_height = 480,
                   c_ops = [DrawImage 1 640 480 0 0 640 480]\<rparr>],
            stream = Some 0, dialog = Some 0, callback = None\<rparr>,
         streams = [[True]],
         dialogs =
           [\<lparr>d_title = JStr ''Camera'', d_animate = JBool False,
               on_hide = Some StopMediaStreamHook, displayed = True,
               primary_label = ''Submit'', primary_action = Some SubmitImages,
               secondary_label = ''Retake'', secondary_action = Some (Retake 0),
               secondary_visible = True,
               custom_actions =
                 [\<lparr>ca_label = ''Take Multiple'', ca_handler = TakeMultiple 0,
                     ca_class = ''btn-multiple'', ca_visible = True\<rparr>],
               close_listeners = [CloseDialog],
               body =
                 Some
                  \<lparr>preview_src =
                     Some
                      (DataURL ''image/png''
                        \<lparr>c_width = 640, c_height = 480,
                           c_ops = [DrawImage 1 640 480 0 0 640 480]\<rparr>),
                     preview_visible = True, stream_visible = False,
                     video =
                       \<lparr>srcObject = Some 0, playing = True, videoWidth = 640,
                          videoHeight = 480, current_frame = 1\<rparr>\<rparr>\<rparr>],
         pending = [], effects = [GetUserMedia ''environment'', DialogShow 0]\<rparr>"
  by code_simp


lemma captured_two_value [code]:
  "captured_two =
     \<lparr>cap =
         \<lparr>options =
            [(''title'', JStr ''Camera''), (''animate'', JBool False),
             (''error'', JBool False)],
            facing_mode = ''environment'',
            images =
              [DataURL ''image/png''
                \<lparr>c_width = 640, c_height = 480,
                   c_ops = [DrawImage 1 640 480 0 0 640 480]\<rparr>,
               DataURL ''image/png''
                \<lparr>c_width = 640, c_height = 480,
                   c_ops = [DrawImage 2 640 480 0 0 640 480]\<rparr>],
            stream = Some 0, dialog = Some 0, callback = Some 7\<rparr>,
         streams = [[True]],
         dialogs =
           [\<lparr>d_title = JStr ''Camera'', d_animate = JBool False,
               on_hide = Some StopMediaStreamHook, displayed = True,
               primary_label = ''Submit'', primary_action = Some SubmitImages,
               secondary_label = ''Retake'',
               secondary_action = Some SwitchCamera, secondary_visible = True,
               custom_actions =
                 [\<lparr>ca_label = ''Take Multiple'', ca_handler = TakeMultiple 0,
                     ca_class = ''btn-multiple'', ca_visible = True\<rparr>],
               close_listeners = [CloseDialog],
               body =
                 Some
                  \<lparr>preview_src =
                     Some
                      (DataURL ''image/png''
                        \<lparr>c_width = 640, c_height = 480,
                           c_ops = [DrawImage 2 640 480 0 0 640 480]\<rparr>),
                     preview_visible = True, stream_visible = False,
                     video =
                       \<lparr>srcObject = Some 0, playing = True, videoWidth = 640,
                          videoHeight = 480, current_frame = 2\<rparr>\<rparr>\<rparr>],
         pending = [], effects = [GetUserMedia ''environment'', DialogShow 0]\<rparr>"
  by code_simp

lemma requesting_with_alerts_value [code]:
  "requesting_with_alerts =
     \<lparr>cap =
         \<lparr>options =
            [(''title'', JStr ''Camera''), (''animate'', JBool False),
             (''error'', JBool True)],
            facing_mode = ''environment'', images = [], stream = None,
            dialog = None, callback = None\<rparr>,
         streams = [], dialogs = [], pending = [''environment''],
         effects = [GetUserMedia ''environment'']\<rparr>"
  by code_simp

lemma requesting_default_value [code]:
  "requesting_default =
     \<lparr>cap =
         \<lparr>options =
            [(''title'', JStr ''Camera''), (''animate'', JBool False),
             (''error'', JBool False)],
            facing_mode = ''environment'', images = [], stream = None,
            dialog = None, callback = None\<rparr>,
         streams = [], dialogs = [], pending = [''environment''],
         effects = [GetUserMedia ''environment'']\<rparr>"
  by code_simp


section \<open>Hiding\<close>

lemma live_map_False [simp]: "\<not> live (map (\<lambda>t. False) s)"
  by (auto simp: live_def)

lemma held_live_stop [simp]: "\<not> held_live (stop_media_stream w)"
  by (auto simp: held_live_def stop_media_stream_def split: option.splits)

lemma streams_stop_stop [simp]:
  "streams (stop_media_stream (stop_media_stream w)) = streams (stop_media_stream w)"
  by (auto simp: stop_media_stream_def comp_def split: option.splits)

lemma dialog_displayed_stop [simp]:
  "dialog_displayed (stop_media_stream w) = dialog_displayed w"
  by (simp add: dialog_displayed_def split: option.splits)

lemma displayed_dialog_hide:
  "j < length (dialogs w) \<Longrightarrow> \<not> displayed (dialogs (dialog_hide j w) ! j)"
  by (auto simp: dialog_hide_def upd_dialog_def Let_def split: option.splits hide_hook.splits)

lemma dialog_hide_hidden:
  "\<not> (j < length (dialogs w) \<and> displayed (dialogs w ! j)) \<Longrightarrow> dialog_hide j w = w"
  by (auto simp: dialog_hide_def)

lemma dialog_displayed_hide [simp]: "\<not> dialog_displayed (hide w)"
  by (auto simp: hide_def dialog_displayed_def Let_def displayed_dialog_hide split: option.splits)

lemma held_live_hide [simp]: "\<not> held_live (hide w)"
  by (simp add: hide_def)



text \<open>Hiding only adds effects, and only those of dismissing and releasing.\<close>

lemma stop_media_stream_effects:
  "\<exists>es. effects (stop_media_stream w) = effects w @ es \<and> list_all is_release es"
  by (auto simp: stop_media_stream_def list_all_iff split: option.splits)

lemma dialog_hide_effects:
  "\<exists>es. effects (dialog_hide j w) = effects w @ es \<and> list_all is_release es
        \<and> (j < length (dialogs w) \<and> displayed (dialogs w ! j) \<longrightarrow> es \<noteq> [])"
proof (cases "j < length (dialogs w) \<and> displayed (dialogs w ! j)")
  case False
  then show ?thesis by (auto simp: dialog_hide_def)
next
  case True
  let ?w1 = "emit [DialogHide j] (upd_dialog j (\<lambda>d. d\<lparr>displayed := False\<rparr>) w)"
  obtain es where es: "effects (stop_media_stream ?w1) = effects ?w1 @ es" "list_all is_release es"
    using stop_media_stream_effects by blast
  show ?thesis
  proof (cases "on_hide (dialogs w ! j)")
    case None
    with True show ?thesis by (simp add: dialog_hide_def)
  next
    case (Some h)
    with True es show ?thesis by (cases h) (simp add: dialog_hide_def)
  qed
qed

lemma hide_effects:
  "\<exists>es. effects (hide w) = effects w @ es \<and> list_all is_release es
        \<and> (dialog_displayed w \<longrightarrow> es \<noteq> [])"
proof -
  define w1 where "w1 = (case dialog (cap w) of None \<Rightarrow> w | Some j \<Rightarrow> dialog_hide j w)"
  have "\<exists>es. effects w1 = effects w @ es \<and> list_all is_release es
          \<and> (dialog_displayed w \<longrightarrow> es \<noteq> [])"
  proof (cases "dialog (cap w)")
    case None
    then show ?thesis by (simp add: w1_def dialog_displayed_def)
  next
    case (Some j)
    then show ?thesis
      using dialog_hide_effects [of j w] by (simp add: w1_def dialog_displayed_def)
  qed
  then obtain es1 where es1: "effects w1 = effects w @ es1" "list_all is_release es1"
      "dialog_displayed w \<longrightarrow> es1 \<noteq> []"
    by blast
  obtain es2 where es2: "effects (stop_media_stream w1) = effects w1 @ es2" "list_all is_release es2"
    using stop_media_stream_effects by blast
  have "hide w = stop_media_stream w1"
    by (simp add: hide_def w1_def)
  with es1 es2 have "effects (hide w) = effects w @ (es1 @ es2) \<and> list_all is_release (es1 @ es2)
      \<and> (dialog_displayed w \<longrightarrow> es1 @ es2 \<noteq> [])"
    by simp
  then show ?thesis by blast
qed

section \<open>Clicks and the Submit action\<close>

lemma click_primary_bound:
  "i < length (dialogs w) \<Longrightarrow> displayed (dialogs w ! i) \<Longrightarrow> primary_action (dialogs w ! i) = Some h
   \<Longrightarrow> click i PrimaryBtn w = run_handler h w"
  by (simp add: click_def listeners_def)

lemma click_secondary_bound:
  "i < length (dialogs w) \<Longrightarrow> displayed (dialogs w ! i) \<Longrightarrow> secondary_visible (dialogs w ! i)
   \<Longrightarrow> secondary_action (dialogs w ! i) = Some h
   \<Longrightarrow> click i SecondaryBtn w = run_handler h w"
  by (simp add: click_def listeners_def)

lemma held_live_emit [simp]: "held_live (emit es w) = held_live w"
  by (simp add: held_live_def split: option.splits)

lemma dialog_displayed_emit [simp]: "dialog_displayed (emit es w) = dialog_displayed w"
  by (simp add: dialog_displayed_def split: option.splits)

lemma release_not_call: "list_all is_release es \<Longrightarrow> filter is_call es = []"
proof (induction es)
  case Nil
  show ?case by simp
next
  case (Cons e es)
  then show ?case by (cases e) simp_all
qed

lemma submit_action_registered:
  "callback (cap w) = Some fn \<Longrightarrow>
   submit_action w = emit [CallbackCall fn (images (cap w))] (hide w)"
  by (simp add: submit_action_def Let_def)

lemma submit_action_unregistered:
  "callback (cap w) = None \<Longrightarrow> submit_action w = hide w"
  by (simp add: submit_action_def Let_def)


section \<open>Reachable worlds are well formed, and what the closures do to the images\<close>




lemma wf_emit [simp]: "well_formed (emit es w) = well_formed w"
  by (simp add: well_formed_def)

lemma wf_field_updates [simp]:
  "well_formed (w\<lparr>cap := c\<rparr>) = well_formed w" "well_formed (w\<lparr>streams := s\<rparr>) = well_formed w" "well_formed (w\<lparr>pending := p\<rparr>) = well_formed w"
  by (simp_all add: well_formed_def)




lemma wf_stop_media_stream [simp]: "well_formed (stop_media_stream w) = well_formed w"
  by (simp add: well_formed_def)



lemma wf_show_capture [simp]: "well_formed (show_capture w) = well_formed w"
  by (simp add: well_formed_def)


lemma set_take_photo_action_simps [simp]:
  "cap (set_take_photo_action i w) = cap w" "streams (set_take_photo_action i w) = streams w"
  "pending (set_take_photo_action i w) = pending w" "effects (set_take_photo_action i w) = effects w"
  "length (dialogs (set_take_photo_action i w)) = length (dialogs w)"
  by (simp_all add: set_take_photo_action_def Let_def)


lemma take_photo_action_images:
  "element_of i w = Some e \<Longrightarrow>
   images (cap (take_photo_action i w)) = images (cap w) @ [get_data_uri (video e)]"
  by (simp add: take_photo_action_def Let_def)

lemma take_photo_action_length [simp]:
  "length (dialogs (take_photo_action i w)) = length (dialogs w)"
  by (simp add: take_photo_action_def Let_def split: option.splits)


lemma submit_action_simps [simp]:
  "cap (submit_action w) = cap w" "length (dialogs (submit_action w)) = length (dialogs w)"
  by (simp_all add: submit_action_def Let_def split: option.splits)


lemma switch_camera_action_simps [simp]:
  "images (cap (switch_camera_action w)) = images (cap w)"
  "length (dialogs (switch_camera_action w)) = length (dialogs w)"
  by (simp_all add: switch_camera_action_def Let_def)


lemma retake_action_simps [simp]:
  "images (cap (retake_action i w)) = butlast (images (cap w))"
  "length (dialogs (retake_action i w)) = length (dialogs w)"
  by (simp_all add: retake_action_def Let_def)


lemma take_multiple_action_simps [simp]:
  "cap (take_multiple_action i w) = cap w"
  "length (dialogs (take_multiple_action i w)) = length (dialogs w)"
  by (simp_all add: take_multiple_action_def Let_def)


lemma run_handler_length [simp]: "length (dialogs (run_handler h w)) = length (dialogs w)"
  by (cases h) simp_all











lemma render_then_dialogs:
  "dialogs (render_then n w) =
     dialogs w @
     [\<lparr>d_title = get_prop (options (cap w)) ''title'',
       d_animate = get_prop (options (cap w)) ''animate'',
       on_hide = Some StopMediaStreamHook, displayed = False,
       primary_label = ''Take Photo'', primary_action = Some (TakePhoto (length (dialogs w))),
       secondary_label = ''Switch Camera'', secondary_action = Some (Retake (length (dialogs w))),
       secondary_visible = True,
       custom_actions =
         [\<lparr>ca_label = ''Take Multiple'', ca_handler = TakeMultiple (length (dialogs w)),
            ca_class = ''btn-multiple'', ca_visible = False\<rparr>],
       close_listeners = [CloseDialog],
       body = Some (TEMPLATE\<lparr>video := (video TEMPLATE)
                 \<lparr>srcObject := Some (length (streams w)), playing := True\<rparr>\<rparr>)\<rparr>]"
  by (simp add: render_then_def Let_def set_take_photo_action_def upd_this_dialog_def upd_dialog_def
      new_dialog_def close_on_click_def set_primary_action_def set_secondary_action_label_def
      set_secondary_action_def add_custom_action_def set_custom_visible_def)



lemma render_then_images [simp]: "images (cap (render_then n w)) = images (cap w)"
  by (simp add: render_then_def Let_def)

lemma dialog_show_simps [simp]:
  "cap (dialog_show j w) = cap w" "length (dialogs (dialog_show j w)) = length (dialogs w)"
  by (simp_all add: dialog_show_def)



lemma drop_promise_simps [simp]:
  "cap (drop_promise p w) = cap w" "well_formed (drop_promise p w) = well_formed w"
  by (simp_all add: drop_promise_def split: promise_state.splits)


lemma video_frame_simps [simp]:
  "cap (video_frame i vw vh f w) = cap w"
  by (simp add: video_frame_def)


lemma submit_simps [simp]:
  "images (cap (submit fn w)) = images (cap w)" "well_formed (submit fn w) = well_formed w"
  by (simp_all add: submit_def)




section \<open>The Switch Camera and retake closures\<close>

lemma held_live_show_capture [simp]: "held_live (show_capture w) = held_live w"
  by (simp add: held_live_def split: option.splits)

lemma dialog_displayed_show_capture [simp]: "dialog_displayed (show_capture w) = dialog_displayed w"
  by (simp add: dialog_displayed_def split: option.splits)

lemma switch_camera_action_facing:
  "facing_mode (cap (switch_camera_action w)) =
     (if facing_mode (cap w) = ''environment'' then ''user'' else ''environment'')"
  by (simp add: switch_camera_action_def Let_def)

lemma switch_camera_action_twice:
  "facing_mode (cap w) = ''environment'' \<or> facing_mode (cap w) = ''user'' \<Longrightarrow>
   facing_mode (cap (switch_camera_action (switch_camera_action w))) = facing_mode (cap w)"
  by (auto simp: switch_camera_action_facing)

lemma switch_camera_action_released:
  "\<not> held_live (switch_camera_action w)" "\<not> dialog_displayed (switch_camera_action w)"
  by (simp_all add: switch_camera_action_def Let_def)

lemma switch_camera_action_effects:
  "\<exists>es. effects (switch_camera_action w) =
          effects w @ [ShowAlert ''Switching Camera''] @ es
            @ [GetUserMedia (facing_mode (cap (switch_camera_action w)))]
        \<and> list_all is_release es"
proof -
  define w2 where "w2 = emit [ShowAlert ''Switching Camera'']
     (w\<lparr>cap := (cap w)\<lparr>facing_mode :=
        (if facing_mode (cap w) = ''environment'' then ''user'' else ''environment'')\<rparr>\<rparr>)"
  obtain es where es: "effects (hide w2) = effects w2 @ es" "list_all is_release es"
    using hide_effects [of w2] by blast
  have "switch_camera_action w = show_capture (hide w2)"
    by (simp add: switch_camera_action_def w2_def Let_def)
  then have "effects (switch_camera_action w) =
          effects w @ [ShowAlert ''Switching Camera''] @ es
            @ [GetUserMedia (facing_mode (cap (switch_camera_action w)))]"
    using es by (simp add: w2_def)
  with es show ?thesis by blast
qed

lemma retake_undoes_take_photo:
  "element_of i w = Some e \<Longrightarrow>
   images (cap (retake_action i (take_photo_action i w))) = images (cap w)"
  by (simp add: take_photo_action_images)

lemma upd_this_dialog_nth:
  "dialog (cap w) = Some j \<Longrightarrow> j < length (dialogs w) \<Longrightarrow>
   dialogs (upd_this_dialog f w) ! j = f (dialogs w ! j)"
  by (simp add: upd_this_dialog_def upd_dialog_def)

lemma upd_element_nth:
  "j < length (dialogs w) \<Longrightarrow>
   dialogs (upd_element i f w) ! j =
     (if j = i then (dialogs w ! j)\<lparr>body := map_option f (body (dialogs w ! j))\<rparr> else dialogs w ! j)"
  by (simp add: upd_element_def upd_dialog_def)

lemma set_take_photo_action_nth:
  "dialog (cap w) = Some j \<Longrightarrow> j < length (dialogs w) \<Longrightarrow>
   dialogs (set_take_photo_action i w) ! j =
     (dialogs w ! j)\<lparr>primary_label := ''Take Photo'', primary_action := Some (TakePhoto i),
        secondary_label := ''Switch Camera'', secondary_action := Some SwitchCamera\<rparr>"
  by (simp add: set_take_photo_action_def Let_def upd_this_dialog_nth set_primary_action_def
      set_secondary_action_label_def set_secondary_action_def)

text \<open>
  After the retake closure the secondary button is bound to the Switch Camera
  closure, and the Take Photo closure relabels the button "Retake" without binding
  it again.
\<close>

lemma retake_action_binds_switch_camera:
  "dialog (cap w) = Some j \<Longrightarrow> j < length (dialogs w) \<Longrightarrow>
   secondary_action (dialogs (retake_action i w) ! j) = Some SwitchCamera
   \<and> secondary_label (dialogs (retake_action i w) ! j) = ''Switch Camera''
   \<and> primary_action (dialogs (retake_action i w) ! j) = Some (TakePhoto i)
   \<and> primary_label (dialogs (retake_action i w) ! j) = ''Take Photo''"
  by (simp add: retake_action_def Let_def set_take_photo_action_nth)

lemma take_photo_action_keeps_secondary_action:
  "dialog (cap w) = Some j \<Longrightarrow> j < length (dialogs w) \<Longrightarrow> element_of i w = Some e \<Longrightarrow>
   secondary_action (dialogs (take_photo_action i w) ! j) = secondary_action (dialogs w ! j)
   \<and> secondary_label (dialogs (take_photo_action i w) ! j) = ''Retake''
   \<and> primary_action (dialogs (take_photo_action i w) ! j) = Some SubmitImages"
  by (simp add: take_photo_action_def Let_def upd_this_dialog_nth upd_element_nth
      set_primary_action_def set_secondary_action_label_def secondary_show_def
      set_custom_visible_def)

section \<open>The facing mode\<close>

lemma take_photo_action_facing [simp]:
  "facing_mode (cap (take_photo_action i w)) = facing_mode (cap w)"
  by (simp add: take_photo_action_def Let_def split: option.splits)

lemma retake_action_facing [simp]:
  "facing_mode (cap (retake_action i w)) = facing_mode (cap w)"
  by (simp add: retake_action_def Let_def)

lemma run_handler_facing:
  "facing_mode (cap w) = ''environment'' \<or> facing_mode (cap w) = ''user'' \<Longrightarrow>
   facing_mode (cap (run_handler h w)) = ''environment''
   \<or> facing_mode (cap (run_handler h w)) = ''user''"
  by (cases h) (auto simp: switch_camera_action_facing)

lemma fold_run_handler_facing:
  "facing_mode (cap w) = ''environment'' \<or> facing_mode (cap w) = ''user'' \<Longrightarrow>
   facing_mode (cap (fold run_handler hs w)) = ''environment''
   \<or> facing_mode (cap (fold run_handler hs w)) = ''user''"
proof (induction hs arbitrary: w)
  case Nil
  then show ?case by simp
next
  case (Cons h hs)
  have "facing_mode (cap (run_handler h w)) = ''environment''
     \<or> facing_mode (cap (run_handler h w)) = ''user''"
    using Cons.prems by (rule run_handler_facing)
  then show ?case
    using Cons.IH [of "run_handler h w"] by simp
qed

lemma render_then_facing [simp]: "facing_mode (cap (render_then n w)) = facing_mode (cap w)"
  by (simp add: render_then_def Let_def)

lemma settle_facing [simp]: "facing_mode (cap (settle k r w)) = facing_mode (cap w)"
  by (cases r)
     (auto simp: settle_def show_chain_def show_then_def show_catch_def Let_def
        split: option.splits prod.splits promise_state.splits)

lemma step_facing:
  "facing_mode (cap w) = ''environment'' \<or> facing_mode (cap w) = ''user'' \<Longrightarrow>
   facing_mode (cap (step ev w)) = ''environment'' \<or> facing_mode (cap (step ev w)) = ''user''"
proof (cases ev)
  case (Click i b)
  assume "facing_mode (cap w) = ''environment'' \<or> facing_mode (cap w) = ''user''"
  then show ?thesis
    using Click fold_run_handler_facing [of w "listeners (dialogs w ! i) b"]
    by (simp add: click_def)
qed (simp_all add: submit_def)

text \<open>In every world a new session can reach, the facing mode is one of the two values.\<close>

lemma facing_mode_two_values:
  "facing_mode (cap (run evs (fresh arg))) = ''environment''
   \<or> facing_mode (cap (run evs (fresh arg))) = ''user''"
proof -
  have "facing_mode (cap w) = ''environment'' \<or> facing_mode (cap w) = ''user'' \<Longrightarrow>
        facing_mode (cap (fold step evs w)) = ''environment''
        \<or> facing_mode (cap (fold step evs w)) = ''user''" for w
  proof (induction evs arbitrary: w)
    case Nil
    then show ?case by simp
  next
    case (Cons ev evs)
    have "facing_mode (cap (step ev w)) = ''environment'' \<or> facing_mode (cap (step ev w)) = ''user''"
      using Cons.prems by (rule step_facing)
    then show ?case
      using Cons.IH [of "step ev w"] by simp
  qed
  moreover have "facing_mode (cap (fresh arg)) = ''environment''"
    by (simp add: fresh_def constructor_def set_options_def Let_def)
  ultimately show ?thesis
    by (simp add: run_def)
qed


section \<open>At most one live stream\<close>

lemma shape_of_emit [simp]: "shape_of (emit es w) = shape_of w"
  by (simp add: shape_of_def)

lemma shape_of_upd_dialog:
  "(\<And>d. displayed (f d) = displayed d) \<Longrightarrow> shape_of (upd_dialog j f w) = shape_of w"
  by (simp add: shape_of_def upd_dialog_def map_update list_update_same_conv)

lemma shape_of_upd_this_dialog:
  "(\<And>d. displayed (f d) = displayed d) \<Longrightarrow> shape_of (upd_this_dialog f w) = shape_of w"
  by (simp add: upd_this_dialog_def shape_of_upd_dialog split: option.splits)

lemma shape_of_upd_element [simp]: "shape_of (upd_element i f w) = shape_of w"
  by (simp add: upd_element_def shape_of_upd_dialog)

lemma shape_of_cap [simp]:
  "stream c = stream (cap w) \<Longrightarrow> dialog c = dialog (cap w) \<Longrightarrow>
   shape_of (w\<lparr>cap := c\<rparr>) = shape_of w"
  by (simp add: shape_of_def)

lemma displayed_primitives [simp]:
  "displayed (set_primary_action l h d) = displayed d"
  "displayed (set_secondary_action h d) = displayed d"
  "displayed (set_secondary_action_label l d) = displayed d"
  "displayed (add_custom_action l h cls d) = displayed d"
  "displayed (set_custom_visible cls v d) = displayed d"
  "displayed (primary_off_click d) = displayed d"
  "displayed (secondary_show d) = displayed d"
  "displayed (close_on_click h d) = displayed d"
  by (simp_all add: set_primary_action_def set_secondary_action_def set_secondary_action_label_def
      add_custom_action_def set_custom_visible_def primary_off_click_def secondary_show_def
      close_on_click_def)

lemma shape_of_set_take_photo_action [simp]:
  "shape_of (set_take_photo_action i w) = shape_of w"
  by (simp add: set_take_photo_action_def Let_def shape_of_upd_this_dialog)

lemma shape_of_take_photo_action [simp]: "shape_of (take_photo_action i w) = shape_of w"
  by (simp add: take_photo_action_def Let_def shape_of_upd_this_dialog split: option.splits)

lemma shape_of_retake_action [simp]: "shape_of (retake_action i w) = shape_of w"
  by (simp add: retake_action_def Let_def shape_of_upd_this_dialog)

lemma shape_of_take_multiple_action [simp]: "shape_of (take_multiple_action i w) = shape_of w"
  by (simp add: take_multiple_action_def Let_def shape_of_upd_this_dialog)

lemma shape_of_video_frame [simp]: "shape_of (video_frame i vw vh f w) = shape_of w"
  by (simp add: video_frame_def)

lemma shape_of_submit [simp]: "shape_of (submit fn w) = shape_of w"
  by (simp add: submit_def shape_of_def)

lemma shape_of_show_capture:
  "shape_of (show_capture w) = (shape_of w)\<lparr>sh_pending := Suc (sh_pending (shape_of w))\<rparr>"
  by (simp add: shape_of_def)

lemma shape_of_stop_media_stream:
  "shape_of (stop_media_stream w) =
     (shape_of w)\<lparr>sh_streams := (case stream (cap w) of None \<Rightarrow> map live (streams w)
                       | Some k \<Rightarrow> (map live (streams w))[k := False])\<rparr>"
  by (auto simp: shape_of_def stop_media_stream_def map_update list_update_beyond
      split: option.splits)

lemma displayed_dialog_hide_map:
  "map displayed (dialogs (dialog_hide j w)) = (map displayed (dialogs w))[j := False]"
proof (cases "j < length (dialogs w)")
  case False
  then show ?thesis
    by (simp add: dialog_hide_hidden list_update_beyond)
next
  case True
  show ?thesis
  proof (cases "displayed (dialogs w ! j)")
    case False
    with True have "(map displayed (dialogs w))[j := False] = map displayed (dialogs w)"
      by (simp add: list_update_same_conv)
    with False show ?thesis
      by (simp add: dialog_hide_hidden)
  next
    case shown: True
    have "dialogs (dialog_hide j w) = (dialogs w)[j := (dialogs w ! j)\<lparr>displayed := False\<rparr>]"
      using True shown
      by (cases "on_hide (dialogs w ! j)")
         (auto simp: dialog_hide_def Let_def upd_dialog_def split: hide_hook.splits)
    then show ?thesis
      by (simp add: map_update)
  qed
qed

lemma streams_dialog_hide:
  "streams (dialog_hide j w) = streams w \<or> streams (dialog_hide j w) = streams (stop_media_stream w)"
proof (cases "j < length (dialogs w) \<and> displayed (dialogs w ! j)")
  case False
  then show ?thesis by (simp add: dialog_hide_hidden)
next
  case True
  let ?w1 = "emit [DialogHide j] (upd_dialog j (\<lambda>d. d\<lparr>displayed := False\<rparr>) w)"
  have s: "streams (stop_media_stream ?w1) = streams (stop_media_stream w)"
    by (simp add: stop_media_stream_def split: option.splits)
  show ?thesis
  proof (cases "on_hide (dialogs w ! j)")
    case None
    with True show ?thesis by (simp add: dialog_hide_def)
  next
    case (Some h)
    with True s show ?thesis by (cases h) (simp add: dialog_hide_def)
  qed
qed

lemma streams_stop_cong:
  "stream (cap w') = stream (cap w) \<Longrightarrow> streams w' = streams w \<Longrightarrow>
   streams (stop_media_stream w') = streams (stop_media_stream w)"
  by (simp add: stop_media_stream_def split: option.splits)

lemma streams_stop_cong2:
  "stream (cap w') = stream (cap w) \<Longrightarrow> streams w' = streams (stop_media_stream w) \<Longrightarrow>
   streams (stop_media_stream w') = streams (stop_media_stream w)"
  using streams_stop_cong [of w' "stop_media_stream w"] by simp

lemma stop_after_dialog_hide:
  "streams (stop_media_stream (dialog_hide j w)) = streams (stop_media_stream w)"
  using streams_dialog_hide [of j w]
    streams_stop_cong [of "dialog_hide j w" w] streams_stop_cong2 [of "dialog_hide j w" w]
  by auto

lemma live_stop_media_stream:
  "map live (streams (stop_media_stream w)) =
     (case stream (cap w) of None \<Rightarrow> map live (streams w)
      | Some k \<Rightarrow> (map live (streams w))[k := False])"
  by (auto simp: stop_media_stream_def map_update list_update_beyond split: option.splits)

lemma shape_of_hide: "shape_of (hide w) = release (shape_of w)"
proof -
  have s: "map live (streams (hide w)) = map live (streams (stop_media_stream w))"
    by (cases "dialog (cap w)") (simp_all add: hide_def stop_after_dialog_hide)
  have d: "map displayed (dialogs (hide w)) =
      (case dialog (cap w) of None \<Rightarrow> map displayed (dialogs w)
       | Some j \<Rightarrow> (map displayed (dialogs w))[j := False])"
    by (cases "dialog (cap w)") (simp_all add: hide_def displayed_dialog_hide_map)
  show ?thesis
    by (simp add: shape_of_def release_def s d live_stop_media_stream split: option.splits)
qed


lemma shape_ok_iff:
  "shape_ok a \<longleftrightarrow>
     (sh_pending a = 0
        \<or> (sh_pending a = 1 \<and> (\<forall>k<length (sh_streams a). \<not> sh_streams a ! k)
            \<and> (\<forall>j<length (sh_dialogs a). \<not> sh_dialogs a ! j)))
     \<and> (\<forall>k<length (sh_streams a). sh_streams a ! k \<longrightarrow> sh_held a = Some k)
     \<and> (\<forall>j<length (sh_dialogs a). sh_dialogs a ! j \<longrightarrow> sh_this a = Some j)"
  by (auto simp: shape_ok_def list_all_length)

lemma nth_update_False:
  "j < length xs \<Longrightarrow> (xs[i := False]) ! j = (xs ! j \<and> i \<noteq> j)"
  by (cases "i = j") simp_all

lemma shape_ok_release: "shape_ok a \<Longrightarrow> shape_ok (release a)"
  by (auto simp: shape_ok_iff release_def nth_update_False split: option.splits)

lemma release_nothing_left:
  "shape_ok a \<Longrightarrow>
   (\<forall>k<length (sh_streams (release a)). \<not> sh_streams (release a) ! k)
   \<and> (\<forall>j<length (sh_dialogs (release a)). \<not> sh_dialogs (release a) ! j)"
  by (auto simp: shape_ok_iff release_def nth_update_False split: option.splits)

lemma release_simps [simp]:
  "sh_pending (release a) = sh_pending a" "sh_held (release a) = sh_held a"
  "sh_this (release a) = sh_this a"
  "length (sh_streams (release a)) = length (sh_streams a)"
  "length (sh_dialogs (release a)) = length (sh_dialogs a)"
  by (simp_all add: release_def split: option.splits)

lemma shape_ok_request:
  "shape_ok a \<Longrightarrow> sh_pending a = 0 \<Longrightarrow> shape_ok ((release a)\<lparr>sh_pending := Suc 0\<rparr>)"
  using release_nothing_left [of a] shape_ok_release [of a]
  by (simp add: shape_ok_iff)

lemma shape_ok_displayed_no_pending:
  "shape_ok a \<Longrightarrow> j < length (sh_dialogs a) \<Longrightarrow> sh_dialogs a ! j \<Longrightarrow> sh_pending a = 0"
  by (auto simp: shape_ok_iff)


lemma single_listeners_upd_dialog:
  "(\<And>d. length (close_listeners (f d)) = length (close_listeners d)
         \<and> length (custom_actions (f d)) = length (custom_actions d)) \<Longrightarrow>
   single_listeners (upd_dialog j f w) = single_listeners w"
proof -
  assume f: "\<And>d. length (close_listeners (f d)) = length (close_listeners d)
         \<and> length (custom_actions (f d)) = length (custom_actions d)"
  show ?thesis
  proof (cases "j < length (dialogs w)")
    case False
    then show ?thesis by (simp add: upd_dialog_def)
  next
    case True
    have "list_all P ((dialogs w)[j := f (dialogs w ! j)]) = list_all P (dialogs w)"
      if "P (f (dialogs w ! j)) = P (dialogs w ! j)" for P
      using that True by (auto simp: list_all_length nth_list_update)
    then show ?thesis
      using True f by (simp add: single_listeners_def upd_dialog_def)
  qed
qed

lemma single_listeners_upd_this_dialog:
  "(\<And>d. length (close_listeners (f d)) = length (close_listeners d)
         \<and> length (custom_actions (f d)) = length (custom_actions d)) \<Longrightarrow>
   single_listeners (upd_this_dialog f w) = single_listeners w"
  by (simp add: upd_this_dialog_def single_listeners_upd_dialog split: option.splits)

lemma single_listeners_upd_element [simp]:
  "single_listeners (upd_element i f w) = single_listeners w"
  by (simp add: upd_element_def single_listeners_upd_dialog)

lemma single_listeners_outside [simp]:
  "single_listeners (emit es w) = single_listeners w"
  "single_listeners (w\<lparr>cap := c\<rparr>) = single_listeners w"
  "single_listeners (stop_media_stream w) = single_listeners w"
  "single_listeners (show_capture w) = single_listeners w"
  "single_listeners (submit fn w) = single_listeners w"
  by (simp_all add: single_listeners_def submit_def)

lemma lengths_primitives [simp]:
  "length (close_listeners (set_primary_action l h d)) = length (close_listeners d)"
  "length (custom_actions (set_primary_action l h d)) = length (custom_actions d)"
  "length (close_listeners (set_secondary_action h d)) = length (close_listeners d)"
  "length (custom_actions (set_secondary_action h d)) = length (custom_actions d)"
  "length (close_listeners (set_secondary_action_label l d)) = length (close_listeners d)"
  "length (custom_actions (set_secondary_action_label l d)) = length (custom_actions d)"
  "length (close_listeners (set_custom_visible cls v d)) = length (close_listeners d)"
  "length (custom_actions (set_custom_visible cls v d)) = length (custom_actions d)"
  "length (close_listeners (primary_off_click d)) = length (close_listeners d)"
  "length (custom_actions (primary_off_click d)) = length (custom_actions d)"
  "length (close_listeners (secondary_show d)) = length (close_listeners d)"
  "length (custom_actions (secondary_show d)) = length (custom_actions d)"
  by (simp_all add: set_primary_action_def set_secondary_action_def set_secondary_action_label_def
      set_custom_visible_def primary_off_click_def secondary_show_def)

lemma single_listeners_dialog_hide [simp]:
  "single_listeners (dialog_hide j w) = single_listeners w"
  by (cases "on_hide (dialogs w ! j)")
     (auto simp: dialog_hide_def Let_def single_listeners_upd_dialog split: hide_hook.splits)

lemma single_listeners_hide [simp]: "single_listeners (hide w) = single_listeners w"
  by (simp add: hide_def Let_def split: option.splits)

lemma single_listeners_set_take_photo_action [simp]:
  "single_listeners (set_take_photo_action i w) = single_listeners w"
  by (simp add: set_take_photo_action_def Let_def single_listeners_upd_this_dialog)

lemma single_listeners_run_handler [simp]:
  "single_listeners (run_handler h w) = single_listeners w"
  by (cases h)
     (simp_all add: take_photo_action_def submit_action_def switch_camera_action_def
        retake_action_def take_multiple_action_def Let_def single_listeners_upd_this_dialog
        split: option.splits)

lemma shape_of_submit_action [simp]: "shape_of (submit_action w) = release (shape_of w)"
  by (simp add: submit_action_def Let_def shape_of_hide split: option.splits)

lemma shape_of_switch_camera_action:
  "shape_of (switch_camera_action w) =
     (release (shape_of w))\<lparr>sh_pending := Suc (sh_pending (shape_of w))\<rparr>"
  by (simp add: switch_camera_action_def Let_def shape_of_show_capture shape_of_hide)

lemma run_handler_inv:
  "one_stream_inv w \<Longrightarrow> pending w = [] \<Longrightarrow> one_stream_inv (run_handler h w)"
proof -
  assume inv: "one_stream_inv w" and idle: "pending w = []"
  have ok: "shape_ok (shape_of w)" and none: "sh_pending (shape_of w) = 0"
    using inv idle by (simp_all add: one_stream_inv_def shape_of_def)
  have "shape_ok (shape_of (run_handler h w))"
  proof (cases h)
    case SwitchCamera
    then show ?thesis
      using shape_ok_request [OF ok none] none by (simp add: shape_of_switch_camera_action)
  qed (simp_all add: ok shape_ok_release shape_of_hide)
  then show ?thesis
    using inv by (simp add: one_stream_inv_def)
qed

lemma listeners_single:
  "length (close_listeners d) \<le> 1 \<Longrightarrow> length (custom_actions d) \<le> 1 \<Longrightarrow>
   listeners d b = [] \<or> (\<exists>h. listeners d b = [h])"
proof -
  assume c: "length (close_listeners d) \<le> 1" and a: "length (custom_actions d) \<le> 1"
  have short: "xs = [] \<or> (\<exists>h. xs = [h])" if "length xs \<le> 1" for xs :: "handler list"
    using that by (cases xs) auto
  have "length (listeners d b) \<le> 1"
  proof (cases b)
    case PrimaryBtn
    then show ?thesis by (cases "primary_action d") (simp_all add: listeners_def)
  next
    case SecondaryBtn
    then show ?thesis
      by (cases "secondary_action d"; cases "secondary_visible d") (simp_all add: listeners_def)
  next
    case (CustomBtn cls)
    have "length (filter (\<lambda>x. ca_class x = cls \<and> ca_visible x) (custom_actions d)) \<le> 1"
      using a by (rule le_trans [OF length_filter_le])
    with CustomBtn show ?thesis by (simp add: listeners_def)
  next
    case CloseBtn
    with c show ?thesis by (simp add: listeners_def)
  qed
  then show ?thesis by (rule short)
qed

lemma click_inv: "one_stream_inv w \<Longrightarrow> one_stream_inv (click i b w)"
proof (cases "i < length (dialogs w) \<and> displayed (dialogs w ! i)")
  case False
  assume "one_stream_inv w"
  with False show ?thesis by (auto simp: click_def)
next
  case True
  assume inv: "one_stream_inv w"
  have "sh_pending (shape_of w) = 0"
    using inv True shape_ok_displayed_no_pending [of "shape_of w" i]
    by (simp add: one_stream_inv_def) (simp add: shape_of_def)
  then have idle: "pending w = []"
    by (simp add: shape_of_def)
  have "length (close_listeners (dialogs w ! i)) \<le> 1 \<and> length (custom_actions (dialogs w ! i)) \<le> 1"
    using inv True by (simp add: one_stream_inv_def single_listeners_def list_all_length)
  then have "listeners (dialogs w ! i) b = [] \<or> (\<exists>h. listeners (dialogs w ! i) b = [h])"
    by (simp add: listeners_single)
  then show ?thesis
    using True inv idle by (auto simp: click_def run_handler_inv)
qed


lemma render_then_cap:
  "stream (cap (render_then n w)) = Some (length (streams w))"
  "dialog (cap (render_then n w)) = Some (length (dialogs w))"
  "streams (render_then n w) = streams w @ [replicate n True]"
  "pending (render_then n w) = pending w"
  by (simp_all add: render_then_def Let_def)

lemma live_replicate: "live (replicate n True) = (0 < n)"
  by (auto simp: live_def)

lemma shape_of_granted:
  "shape_of (snd (show_chain (Granted n) w)) =
     \<lparr>sh_pending = length (pending w),
      sh_streams = map live (streams w) @ [0 < n],
      sh_held = Some (length (streams w)),
      sh_dialogs = map displayed (dialogs w) @ [True],
      sh_this = Some (length (dialogs w))\<rparr>"
  by (simp add: show_chain_def show_then_def Let_def render_then_cap dialog_show_def
      upd_dialog_def shape_of_def render_then_dialogs live_replicate map_update)

lemma single_listeners_granted:
  "single_listeners w \<Longrightarrow> single_listeners (snd (show_chain (Granted n) w))"
  by (simp add: show_chain_def show_then_def Let_def render_then_cap dialog_show_def
      upd_dialog_def single_listeners_def render_then_dialogs)

lemma show_chain_denied:
  "shape_of (snd (show_chain (Denied err) w)) = shape_of w"
  "single_listeners (snd (show_chain (Denied err) w)) = single_listeners w"
  by (simp_all add: show_chain_def show_catch_def Let_def)

lemma drop_promise_shape [simp]:
  "shape_of (drop_promise p w) = shape_of w"
  "single_listeners (drop_promise p w) = single_listeners w"
  by (simp_all add: drop_promise_def split: promise_state.splits)

lemma shape_ok_granted:
  "shape_ok a \<Longrightarrow> sh_pending a = 1 \<Longrightarrow>
   shape_ok \<lparr>sh_pending = 0, sh_streams = sh_streams a @ [l],
             sh_held = Some (length (sh_streams a)),
             sh_dialogs = sh_dialogs a @ [True], sh_this = Some (length (sh_dialogs a))\<rparr>"
  by (auto simp: shape_ok_iff nth_append)

lemma shape_ok_denied:
  "shape_ok a \<Longrightarrow> shape_ok (a\<lparr>sh_pending := 0\<rparr>)"
  by (auto simp: shape_ok_iff)

lemma settle_inv: "one_stream_inv w \<Longrightarrow> one_stream_inv (settle k r w)"
proof (cases "k < length (pending w)")
  case False
  assume "one_stream_inv w"
  with False show ?thesis by (simp add: settle_def)
next
  case True
  assume inv: "one_stream_inv w"
  then have ok: "shape_ok (shape_of w)" and sl: "single_listeners w"
    by (simp_all add: one_stream_inv_def)
  have one: "sh_pending (shape_of w) = 1"
    using ok True by (auto simp: shape_ok_iff shape_of_def)
  then have k: "k = 0" and len: "length (pending w) = 1"
    using True by (simp_all add: shape_of_def)
  let ?w0 = "w\<lparr>pending := take k (pending w) @ drop (Suc k) (pending w)\<rparr>"
  have w0: "shape_of ?w0 = (shape_of w)\<lparr>sh_pending := 0\<rparr>" "single_listeners ?w0"
    using k len sl by (simp_all add: shape_of_def single_listeners_def)
  have step: "settle k r w = drop_promise (fst (show_chain r ?w0)) (snd (show_chain r ?w0))"
    using True by (simp add: settle_def Let_def split: prod.splits)
  show ?thesis
  proof (cases r)
    case (Granted n)
    have "shape_ok (shape_of (snd (show_chain (Granted n) ?w0)))"
      using shape_ok_granted [OF ok one, of "0 < n"] k len
      by (simp add: shape_of_granted) (simp add: shape_of_def)
    then show ?thesis
      using w0(2) by (simp add: Granted step [unfolded Granted] one_stream_inv_def single_listeners_granted)
  next
    case (Denied err)
    then show ?thesis
      using w0 shape_ok_denied [OF ok]
      by (simp add: step [unfolded Denied] one_stream_inv_def show_chain_denied)
  qed
qed

lemma idle_shape:
  "idle w \<Longrightarrow> shape_ok (shape_of w) \<Longrightarrow>
   shape_ok ((shape_of w)\<lparr>sh_pending := Suc (sh_pending (shape_of w))\<rparr>)"
  by (auto simp: idle_def shape_ok_iff shape_of_def list_all_length)

lemma step_inv:
  "one_stream_inv w \<Longrightarrow> (if ev = CallShow then idle w else True) \<Longrightarrow> one_stream_inv (step ev w)"
proof (cases ev)
  case CallShow
  assume "one_stream_inv w" "if ev = CallShow then idle w else True"
  then show ?thesis
    using CallShow idle_shape [of w]
    by (simp add: one_stream_inv_def shape_of_show_capture)
next
  case CallHide
  assume "one_stream_inv w"
  then show ?thesis
    using CallHide by (simp add: one_stream_inv_def shape_of_hide shape_ok_release)
next
  case (CallSubmit fn)
  assume "one_stream_inv w"
  then show ?thesis
    using CallSubmit by (simp add: one_stream_inv_def)
next
  case (Settle k r)
  assume "one_stream_inv w"
  then show ?thesis
    using Settle by (simp add: settle_inv)
next
  case (VideoFrame i vw vh f)
  assume "one_stream_inv w"
  then show ?thesis
    using VideoFrame by (simp add: one_stream_inv_def video_frame_def)
next
  case (Click i b)
  assume "one_stream_inv w"
  then show ?thesis
    using Click by (simp add: click_inv)
qed

lemma run_inv:
  "one_stream_inv w \<Longrightarrow> admissible evs w \<Longrightarrow> one_stream_inv (run evs w)"
proof (induction evs arbitrary: w)
  case Nil
  then show ?case by (simp add: run_def)
next
  case (Cons ev evs)
  from Cons.prems have a: "if ev = CallShow then idle w else True"
    and rest: "admissible evs (step ev w)" by simp_all
  have "one_stream_inv (step ev w)"
    using Cons.prems(1) a by (rule step_inv)
  then have "one_stream_inv (run evs (step ev w))"
    using rest by (rule Cons.IH)
  then show ?case by (simp add: run_def)
qed

lemma fresh_inv: "one_stream_inv (fresh arg)"
  by (simp add: one_stream_inv_def shape_ok_def shape_of_def single_listeners_def fresh_def)

lemma filter_at_most_one:
  "(\<And>k. k < length xs \<Longrightarrow> xs ! k \<Longrightarrow> k = c) \<Longrightarrow> length (filter (\<lambda>x. x) xs) \<le> 1"
proof -
  assume only: "\<And>k. k < length xs \<Longrightarrow> xs ! k \<Longrightarrow> k = c"
  have "length (filter (\<lambda>x. x) xs) = card {i. i < length xs \<and> xs ! i}"
    by (rule length_filter_conv_card)
  also have "\<dots> \<le> card {c}"
    using only by (intro card_mono) auto
  finally show ?thesis by simp
qed

lemma one_stream_inv_live: "one_stream_inv w \<Longrightarrow> live_streams w \<le> 1"
proof -
  assume "one_stream_inv w"
  then have ok: "shape_ok (shape_of w)" by (simp add: one_stream_inv_def)
  have f: "length (filter live (streams w)) = length (filter (\<lambda>x. x) (map live (streams w)))"
    by (simp add: filter_map comp_def)
  show ?thesis
  proof (cases "stream (cap w)")
    case None
    then have "\<And>k. k < length (map live (streams w)) \<Longrightarrow> map live (streams w) ! k \<Longrightarrow> k = 0"
      using ok by (auto simp: shape_ok_iff shape_of_def)
    then show ?thesis
      unfolding live_streams_def f by (rule filter_at_most_one)
  next
    case (Some c)
    then have "\<And>k. k < length (map live (streams w)) \<Longrightarrow> map live (streams w) ! k \<Longrightarrow> k = c"
      using ok by (auto simp: shape_ok_iff shape_of_def)
    then show ?thesis
      unfolding live_streams_def f by (rule filter_at_most_one)
  qed
qed

text \<open>
  In a session in which the application calls \<^verbatim>\<open>show\<close> only when nothing is pending,
  live or displayed, at most one stream is live at every moment, whatever the user
  clicks and whatever the browser answers.
\<close>

lemma at_most_one_live_stream:
  "admissible evs (fresh arg) \<Longrightarrow> live_streams (run evs (fresh arg)) \<le> 1"
  by (intro one_stream_inv_live run_inv fresh_inv)

section \<open>Properties of the capture dialog\<close>

subsection \<open>Frame capture\<close>

text \<open>
  C8. For every video element of native size \<open>w\<close> by \<open>h\<close>, \<^verbatim>\<open>get_data_uri\<close> asks for a
  PNG encoding of a surface of exactly \<open>w\<close> by \<open>h\<close> on which the current frame was
  drawn once, at the origin, at its native size: the drawing neither scales the
  frame nor leaves part of the surface uncovered.
\<close>

theorem get_data_uri_native_png:
  "mime (get_data_uri v) = ''image/png''
   \<and> c_width (surface (get_data_uri v)) = videoWidth v
   \<and> c_height (surface (get_data_uri v)) = videoHeight v
   \<and> c_ops (surface (get_data_uri v)) =
       [DrawImage (current_frame v) (videoWidth v) (videoHeight v) 0 0 (videoWidth v) (videoHeight v)]
   \<and> list_all unscaled (c_ops (surface (get_data_uri v)))
   \<and> list_all (\<lambda>op. fills op (surface (get_data_uri v))) (c_ops (surface (get_data_uri v)))"
  by (simp add: get_data_uri_def new_canvas_def drawImage_def toDataURL_def unscaled_def fills_def Let_def)

subsection \<open>Construction\<close>

text \<open>
  C10. Whatever configuration object is passed to the constructor, an option it
  omits has its default value: the title is "Camera", \<open>animate\<close> is false and
  \<open>error\<close> is false, so that by default a failed request shows no alert. With no
  argument the options are the defaults. Every new session has the facing mode
  \<open>environment\<close> and no image.
\<close>

theorem constructor_defaults:
  "(k \<notin> fst ` set cfg \<longrightarrow>
      get_prop (options (constructor (Some cfg))) k = get_prop OPTIONS k)
   \<and> options (constructor None) = OPTIONS
   \<and> get_prop OPTIONS ''title'' = JStr ''Camera''
   \<and> get_prop OPTIONS ''animate'' = JBool False
   \<and> get_prop OPTIONS ''error'' = JBool False
   \<and> \<not> truthy (get_prop OPTIONS ''error'')
   \<and> facing_mode (constructor arg) = ''environment''
   \<and> images (constructor arg) = []"
  by (simp add: constructor_def set_options_def get_prop_spread_absent Let_def)
     (simp add: OPTIONS_def get_prop_def spread_def)

theorem constructor_defaults_witness:
  "''title'' \<notin> fst ` set [(''error'', JBool True)]
   \<and> get_prop (options (constructor (Some [(''error'', JBool True)]))) ''title'' = JStr ''Camera''
   \<and> get_prop (options (constructor (Some [(''error'', JBool True)]))) ''error'' = JBool True
   \<and> facing_mode (constructor (Some [(''error'', JBool True)])) = ''environment''
   \<and> images (constructor (Some [(''error'', JBool True)])) = []"
  using constructor_defaults [of "''title''" "[(''error'', JBool True)]" "Some [(''error'', JBool True)]"]
  by (simp add: constructor_def set_options_def OPTIONS_def get_prop_def spread_def Let_def)

subsection \<open>A request that fails\<close>

text \<open>
  C6. When the request made by \<^verbatim>\<open>show\<close> fails, \<open>images\<close> and \<open>facing_mode\<close> are what
  they were before \<^verbatim>\<open>show\<close> was called. The failure changes no field of the Capture
  object, no stream and no dialog, in whatever state it arrives.
\<close>

theorem failed_request_keeps_images_and_facing_mode:
  "images (cap (settle k (Denied err) (show_capture w))) = images (cap w)
   \<and> facing_mode (cap (settle k (Denied err) (show_capture w))) = facing_mode (cap w)
   \<and> cap (settle k (Denied err) w) = cap w
   \<and> streams (settle k (Denied err) w) = streams w
   \<and> dialogs (settle k (Denied err) w) = dialogs w"
  by (simp add: settle_denied)

subsection \<open>Hiding\<close>



subsection \<open>Submitting\<close>

text \<open>
  C2, as the code has it. When the user clicks the primary button of the session's
  dialog while it is bound to the Submit action and a callback is registered, the
  session is first hidden (the dialog is dismissed and every track of the stream is
  stopped) and then the callback is called, exactly once, with the whole of
  \<open>images\<close>.
\<close>

theorem submit_hides_then_calls_back:
  assumes "dialog (cap w) = Some i" and "i < length (dialogs w)" and "displayed (dialogs w ! i)"
    and "primary_action (dialogs w ! i) = Some SubmitImages" and "callback (cap w) = Some fn"
  shows "effects (click i PrimaryBtn w) = effects (hide w) @ [CallbackCall fn (images (cap w))]
     \<and> release_then_call (new_effects w (click i PrimaryBtn w))
     \<and> filter is_call (new_effects w (click i PrimaryBtn w)) = [CallbackCall fn (images (cap w))]
     \<and> \<not> held_live (click i PrimaryBtn w)
     \<and> \<not> dialog_displayed (click i PrimaryBtn w)
     \<and> cap (click i PrimaryBtn w) = cap w
     \<and> streams (click i PrimaryBtn w) = streams (hide w)
     \<and> dialogs (click i PrimaryBtn w) = dialogs (hide w)"
proof -
  let ?c = "CallbackCall fn (images (cap w))"
  have run: "click i PrimaryBtn w = emit [?c] (hide w)"
    using assms by (simp add: click_primary_bound submit_action_registered)
  have shown: "dialog_displayed w"
    using assms by (simp add: dialog_displayed_def)
  obtain es where es: "effects (hide w) = effects w @ es" "list_all is_release es" "es \<noteq> []"
    using hide_effects [of w] shown by blast
  have new: "new_effects w (emit [?c] (hide w)) = es @ [?c]"
    by (simp add: new_effects_def es)
  have order: "release_then_call (es @ [?c])"
    using es by (simp add: release_then_call_def)
  have once: "filter is_call (es @ [?c]) = [?c]"
    using es by (simp add: release_not_call)
  have state: "\<not> held_live (emit [?c] (hide w)) \<and> \<not> dialog_displayed (emit [?c] (hide w))"
    by simp
  show ?thesis
    using order once state by (simp add: run new)
qed

theorem submit_hides_then_calls_back_witness:
  "dialog (cap captured_once) = Some 0 \<and> 0 < length (dialogs captured_once)
   \<and> displayed (dialogs captured_once ! 0)
   \<and> primary_action (dialogs captured_once ! 0) = Some SubmitImages
   \<and> callback (cap captured_once) = Some 7
   \<and> images (cap captured_once) = [picture 1]
   \<and> release_then_call (new_effects captured_once (click 0 PrimaryBtn captured_once))
   \<and> filter is_call (new_effects captured_once (click 0 PrimaryBtn captured_once))
       = [CallbackCall 7 [picture 1]]"
proof -
  have h: "dialog (cap captured_once) = Some 0 \<and> 0 < length (dialogs captured_once)
     \<and> displayed (dialogs captured_once ! 0)
     \<and> primary_action (dialogs captured_once ! 0) = Some SubmitImages
     \<and> callback (cap captured_once) = Some 7
     \<and> images (cap captured_once) = [picture 1]"
    by (simp add: captured_once_value picture_def)
  show ?thesis
    using h submit_hides_then_calls_back [of captured_once 0 7] by simp
qed

text \<open>
  C2, as the claim states it, asks for the other order: the callback first, the
  dismissal and the release after it. After one capture the Submit action produces
  the effects below, with the call last.
\<close>

theorem submit_calls_back_first_counterexample:
  "new_effects captured_once (click 0 PrimaryBtn captured_once)
     = [DialogHide 0, TrackStop 0 0, TrackStop 0 0, CallbackCall 7 [picture 1]]
   \<and> \<not> call_then_release (new_effects captured_once (click 0 PrimaryBtn captured_once))"
  by code_simp

text \<open>
  C9. \<^verbatim>\<open>submit(fn)\<close> records \<open>fn\<close> as the callback, replacing the one that was
  there, and changes nothing else: not the options, the facing mode, the images,
  the stream or the dialog, and it has no effect outside. When the Submit action
  runs and no callback is registered, the session is hidden as usual: the only
  effects are those of dismissing and releasing, and no callback is called.
\<close>

theorem submit_only_registers_callback:
  "callback (cap (submit fn w)) = fn
   \<and> submit fn (submit g w) = submit fn w
   \<and> options (cap (submit fn w)) = options (cap w)
   \<and> facing_mode (cap (submit fn w)) = facing_mode (cap w)
   \<and> images (cap (submit fn w)) = images (cap w)
   \<and> stream (cap (submit fn w)) = stream (cap w)
   \<and> dialog (cap (submit fn w)) = dialog (cap w)
   \<and> streams (submit fn w) = streams w
   \<and> dialogs (submit fn w) = dialogs w
   \<and> pending (submit fn w) = pending w
   \<and> effects (submit fn w) = effects w
   \<and> (callback (cap w) = None \<longrightarrow>
        submit_action w = hide w
        \<and> list_all is_release (new_effects w (submit_action w))
        \<and> filter is_call (new_effects w (submit_action w)) = [])"
proof -
  obtain es where es: "effects (hide w) = effects w @ es" "list_all is_release es"
    using hide_effects [of w] by blast
  then have "list_all is_release (new_effects w (hide w))
      \<and> filter is_call (new_effects w (hide w)) = []"
    by (simp add: new_effects_def release_not_call)
  then show ?thesis
    by (simp add: submit_def submit_action_unregistered)
qed

theorem submit_only_registers_callback_witness:
  "callback (cap captured_unregistered) = None
   \<and> primary_action (dialogs captured_unregistered ! 0) = Some SubmitImages
   \<and> click 0 PrimaryBtn captured_unregistered = hide captured_unregistered
   \<and> new_effects captured_unregistered (click 0 PrimaryBtn captured_unregistered)
       = [DialogHide 0, TrackStop 0 0, TrackStop 0 0]
   \<and> \<not> dialog_displayed (hide captured_unregistered)"
proof -
  have h: "callback (cap captured_unregistered) = None
     \<and> primary_action (dialogs captured_unregistered ! 0) = Some SubmitImages"
    by (simp add: captured_unregistered_value)
  have c: "click 0 PrimaryBtn captured_unregistered = submit_action captured_unregistered"
    by (simp add: click_primary_bound captured_unregistered_value)
  have e: "new_effects captured_unregistered (click 0 PrimaryBtn captured_unregistered)
       = [DialogHide 0, TrackStop 0 0, TrackStop 0 0]"
    by code_simp
  show ?thesis
    using h c e submit_only_registers_callback [of None captured_unregistered None]
    by simp
qed

subsection \<open>Counting the images\<close>





subsection \<open>The secondary button\<close>

text \<open>
  C1, at a second capture. The session takes a photo, retakes it and takes another
  one. The first click on "Retake" ran the retake closure, which removed the image
  and, through \<^verbatim>\<open>set_take_photo_action\<close> (line 118), bound the secondary button to the
  Switch Camera closure (line 100). The second capture labelled the button "Retake"
  (line 89) and left that binding. A click on it now keeps the image, toggles the
  facing mode to \<open>user\<close>, hides the dialog, stops the stream and requests a new
  one: it runs lines 101-106, not lines 113-118.
\<close>

theorem retake_after_second_capture_switches_camera:
  "images (cap captured_once) = [picture 1]
   \<and> secondary_label (dialogs captured_once ! 0) = ''Retake''
   \<and> images (cap retaken) = []
   \<and> images (cap captured_again) = [picture 2]
   \<and> secondary_label (dialogs captured_again ! 0) = ''Retake''
   \<and> secondary_action (dialogs captured_again ! 0) = Some SwitchCamera
   \<and> facing_mode (cap captured_again) = ''environment''
   \<and> images (cap (click 0 SecondaryBtn captured_again)) = [picture 2]
   \<and> facing_mode (cap (click 0 SecondaryBtn captured_again)) = ''user''
   \<and> \<not> dialog_displayed (click 0 SecondaryBtn captured_again)
   \<and> pending (click 0 SecondaryBtn captured_again) = [''user'']
   \<and> new_effects captured_again (click 0 SecondaryBtn captured_again) =
       [ShowAlert ''Switching Camera'', DialogHide 0, TrackStop 0 0, TrackStop 0 0,
        GetUserMedia ''user'']"
  by code_simp

text \<open>
  C4, in a dialog that was just rendered. \<^verbatim>\<open>render\<close> binds the secondary button to
  the Switch Camera closure (line 100, called from line 110) and then to the retake
  closure (line 112), so the button labelled "Switch Camera" runs lines 113-118 at
  the first click: the facing mode is still \<open>environment\<close>, the stream is still
  live and nothing was requested. Only the second click reaches the Switch Camera
  closure, so two clicks leave the facing mode at \<open>user\<close>.
\<close>

theorem switch_camera_on_new_dialog_runs_retake:
  "secondary_label (dialogs previewing_fresh ! 0) = ''Switch Camera''
   \<and> secondary_action (dialogs previewing_fresh ! 0) = Some (Retake 0)
   \<and> facing_mode (cap previewing_fresh) = ''environment''
   \<and> facing_mode (cap (click 0 SecondaryBtn previewing_fresh)) = ''environment''
   \<and> new_effects previewing_fresh (click 0 SecondaryBtn previewing_fresh) = []
   \<and> pending (click 0 SecondaryBtn previewing_fresh) = []
   \<and> held_live (click 0 SecondaryBtn previewing_fresh)
   \<and> facing_mode (cap (click 0 SecondaryBtn (click 0 SecondaryBtn previewing_fresh))) = ''user''"
  by code_simp

subsection \<open>A failed request, seen from the caller\<close>

text \<open>
  C3, at a denied permission. With \<^verbatim>\<open>{error: true}\<close> one alert is shown, with the
  default options none. In both cases the promise that \<^verbatim>\<open>.catch\<close> returns ends
  rejected with the same error, but \<^verbatim>\<open>show\<close> has returned long before and holds
  that promise no more than its caller does: the error ends as an unhandled
  rejection. The session is left with no stream, no dialog and no request.
\<close>

theorem failed_show_error_is_unhandled:
  "effects (settle 0 (Denied ''NotAllowedError'') requesting_with_alerts) =
     [GetUserMedia ''environment'', ShowAlert ''Unable to load camera.'',
      UnhandledRejection ''NotAllowedError'']
   \<and> effects (settle 0 (Denied ''NotAllowedError'') requesting_default) =
     [GetUserMedia ''environment'', UnhandledRejection ''NotAllowedError'']
   \<and> fst (show_chain (Denied ''NotAllowedError'') requesting_with_alerts)
       = Rejected ''NotAllowedError''
   \<and> pending (settle 0 (Denied ''NotAllowedError'') requesting_with_alerts) = []
   \<and> stream (cap (settle 0 (Denied ''NotAllowedError'') requesting_with_alerts)) = None
   \<and> dialog (cap (settle 0 (Denied ''NotAllowedError'') requesting_with_alerts)) = None
   \<and> \<not> held_live (settle 0 (Denied ''NotAllowedError'') requesting_with_alerts)
   \<and> \<not> dialog_displayed (settle 0 (Denied ''NotAllowedError'') requesting_with_alerts)"
  by code_simp

end
